theory Spec2Isabelle
  imports Main "HOL-Library.Sublist" "HOL-Library.AList"
begin

section \<open>Python values and exceptions\<close>

text \<open>
  The zoned store of \<^verbatim>\<open>data_lake.py\<close> is embedded with explicit state: every
  operation takes the filesystem and the catalog it works on and returns them, together
  with either the value the Python returns (\<open>Inr\<close>) or the exception it raises
  (\<open>Inl\<close>). Python \<^verbatim>\<open>str\<close> is \<open>string\<close>; one \<open>char\<close> stands for
  one code point, so the model covers the code points up to U+00FF.
\<close>

datatype error =
    ValueError string
  | KeyError string
  | FileNotFoundError string
  | FileExistsError string
  | NotADirectoryError string
  | IsADirectoryError string
  | OSError string
  | OperationalError string
  | CodecError string

subsection \<open>Decimal fields\<close>

definition digit :: "nat \<Rightarrow> char" where
  "digit d = ''0123456789'' ! (d mod 10)"

fun dec :: "nat \<Rightarrow> string" where
  "dec n = (if n < 10 then [digit n] else dec (n div 10) @ [digit n])"

declare dec.simps [simp del]

text \<open>\<^verbatim>\<open>"%0wd" % n\<close>: at least \<open>w\<close> digits, padded with zeros on the left.\<close>

definition zpad :: "nat \<Rightarrow> nat \<Rightarrow> string" where
  "zpad w n = replicate (w - length (dec n)) (CHR ''0'') @ dec n"

definition digit_val :: "char \<Rightarrow> nat option" where
  "digit_val c =
     (let k = (of_char c :: nat) in if 48 \<le> k \<and> k \<le> 57 then Some (k - 48) else None)"

text \<open>Reads a run of decimal digits; \<open>None\<close> when a character is no digit.\<close>

fun digits_val :: "nat \<Rightarrow> string \<Rightarrow> nat option" where
  "digits_val acc [] = Some acc"
| "digits_val acc (c # cs) =
     (case digit_val c of None \<Rightarrow> None | Some d \<Rightarrow> digits_val (10 * acc + d) cs)"

subsection \<open>\<^verbatim>\<open>datetime\<close>\<close>

text \<open>
  A naive \<^verbatim>\<open>datetime\<close>, which is what \<^verbatim>\<open>datetime.now()\<close> and
  \<^verbatim>\<open>datetime.fromtimestamp\<close> produce. The constructor of the Python class rejects
  fields out of range; \<open>valid_datetime\<close> is that check.
\<close>

record datetime =
  year :: nat
  month :: nat
  day :: nat
  hour :: nat
  minute :: nat
  second :: nat
  microsecond :: nat

definition is_leap :: "nat \<Rightarrow> bool" where
  "is_leap y = (y mod 4 = 0 \<and> (y mod 100 \<noteq> 0 \<or> y mod 400 = 0))"

definition days_in_month :: "nat \<Rightarrow> nat \<Rightarrow> nat" where
  "days_in_month y m =
     (if m = 2 then (if is_leap y then 29 else 28)
      else if m = 4 \<or> m = 6 \<or> m = 9 \<or> m = 11 then 30 else 31)"

definition valid_datetime :: "datetime \<Rightarrow> bool" where
  "valid_datetime t =
     (1 \<le> year t \<and> year t \<le> 9999 \<and> 1 \<le> month t \<and> month t \<le> 12 \<and>
      1 \<le> day t \<and> day t \<le> days_in_month (year t) (month t) \<and>
      hour t < 24 \<and> minute t < 60 \<and> second t < 60 \<and> microsecond t < 1000000)"

text \<open>\<^verbatim>\<open>t.isoformat(sep)\<close>; the fraction is written only when it is not zero.\<close>

definition isoformat_sep :: "char \<Rightarrow> datetime \<Rightarrow> string" where
  "isoformat_sep sep t =
     zpad 4 (year t) @ ''-'' @ zpad 2 (month t) @ ''-'' @ zpad 2 (day t) @ [sep] @
     zpad 2 (hour t) @ '':'' @ zpad 2 (minute t) @ '':'' @ zpad 2 (second t) @
     (if microsecond t = 0 then [] else ''.'' @ zpad 6 (microsecond t))"

definition isoformat :: "datetime \<Rightarrow> string" where
  "isoformat t = isoformat_sep (CHR ''T'') t"

text \<open>\<^verbatim>\<open>str(t)\<close> is \<^verbatim>\<open>t.isoformat(sep=' ')\<close>.\<close>

definition str_datetime :: "datetime \<Rightarrow> string" where
  "str_datetime t = isoformat_sep (CHR '' '') t"

text \<open>\<^verbatim>\<open>t.strftime("%Y%m%d_%H%M%S")\<close>.\<close>

definition strftime_stamp :: "datetime \<Rightarrow> string" where
  "strftime_stamp t =
     zpad 4 (year t) @ zpad 2 (month t) @ zpad 2 (day t) @ ''_'' @
     zpad 2 (hour t) @ zpad 2 (minute t) @ zpad 2 (second t)"

text \<open>
  \<^verbatim>\<open>datetime.fromisoformat\<close> on the shapes \<^verbatim>\<open>isoformat\<close> writes for a naive value:
  \<^verbatim>\<open>YYYY-MM-DD\<close>, one separator character, \<^verbatim>\<open>HH:MM:SS\<close> and an optional
  fraction of six digits. Anything else raises \<^verbatim>\<open>ValueError\<close>, as does a field
  out of range.
\<close>

definition field :: "nat \<Rightarrow> nat \<Rightarrow> string \<Rightarrow> nat option" where
  "field k n s = digits_val 0 (take n (drop k s))"

definition fromisoformat :: "string \<Rightarrow> error + datetime" where
  "fromisoformat s =
     (let bad = Inl (ValueError (''Invalid isoformat string: '' @ s)) in
      if length s \<noteq> 19 \<and> length s \<noteq> 26 then bad
      else if s ! 4 \<noteq> CHR ''-'' \<or> s ! 7 \<noteq> CHR ''-'' \<or> s ! 13 \<noteq> CHR '':'' \<or> s ! 16 \<noteq> CHR '':''
      then bad
      else if length s = 26 \<and> s ! 19 \<noteq> CHR ''.'' then bad
      else
        (case field 0 4 s of None \<Rightarrow> bad | Some y \<Rightarrow>
        (case field 5 2 s of None \<Rightarrow> bad | Some mo \<Rightarrow>
        (case field 8 2 s of None \<Rightarrow> bad | Some d \<Rightarrow>
        (case field 11 2 s of None \<Rightarrow> bad | Some h \<Rightarrow>
        (case field 14 2 s of None \<Rightarrow> bad | Some mi \<Rightarrow>
        (case field 17 2 s of None \<Rightarrow> bad | Some sec \<Rightarrow>
        (case field 20 6 s of None \<Rightarrow> bad | Some us \<Rightarrow>
           (let t = \<lparr>year = y, month = mo, day = d, hour = h, minute = mi,
                     second = sec, microsecond = us\<rparr>
            in if valid_datetime t then Inr t else bad)))))))))"

section \<open>Paths\<close>

text \<open>
  \<^verbatim>\<open>pathlib.PurePosixPath\<close>: a path is its anchor and the list of its components.
  The anchor is empty for a relative path, \<^verbatim>\<open>/\<close> for an absolute one, and
  \<^verbatim>\<open>//\<close> when the string starts with exactly two slashes. Parsing a string splits
  it at \<^verbatim>\<open>/\<close> and drops empty components and \<^verbatim>\<open>.\<close>; \<^verbatim>\<open>..\<close> is kept as
  a component, as pathlib does.
\<close>

datatype path = Path (anchor: string) (parts: "string list")

fun split_slash :: "string \<Rightarrow> string list" where
  "split_slash [] = [[]]"
| "split_slash (c # cs) =
     (if c = CHR ''/'' then [] # split_slash cs
      else (case split_slash cs of [] \<Rightarrow> [[c]] | w # ws \<Rightarrow> (c # w) # ws))"

definition components :: "string \<Rightarrow> string list" where
  "components s = filter (\<lambda>w. w \<noteq> [] \<and> w \<noteq> ''.'') (split_slash s)"

definition is_absolute :: "string \<Rightarrow> bool" where
  "is_absolute s = (case s of [] \<Rightarrow> False | c # _ \<Rightarrow> c = CHR ''/'')"

definition anchor_of :: "string \<Rightarrow> string" where
  "anchor_of s =
     (let n = length (takeWhile (\<lambda>c. c = CHR ''/'') s)
      in if n = 0 then [] else if n = 2 then ''//'' else ''/'')"

definition parse_path :: "string \<Rightarrow> path" where
  "parse_path s = Path (anchor_of s) (components s)"

text \<open>The operator \<^verbatim>\<open>p / s\<close>: an absolute right operand replaces the left one.\<close>

definition joinpath :: "path \<Rightarrow> string \<Rightarrow> path" where
  "joinpath p s =
     (if is_absolute s then parse_path s else Path (anchor p) (parts p @ components s))"

fun join_slash :: "string list \<Rightarrow> string" where
  "join_slash [] = []"
| "join_slash [w] = w"
| "join_slash (w # ws) = w @ ''/'' @ join_slash ws"

definition str_path :: "path \<Rightarrow> string" where
  "str_path p =
     (if anchor p \<noteq> [] then anchor p @ join_slash (parts p)
      else if parts p = [] then ''.'' else join_slash (parts p))"

definition path_name :: "path \<Rightarrow> string" where
  "path_name p = (if parts p = [] then [] else last (parts p))"

definition parent :: "path \<Rightarrow> path" where
  "parent p = Path (anchor p) (butlast (parts p))"

text \<open>\<^verbatim>\<open>s.rfind(c)\<close>: the last index of \<open>c\<close>, or \<open>-1\<close>.\<close>

definition rfind :: "char \<Rightarrow> string \<Rightarrow> int" where
  "rfind c s =
     (if c \<in> set s then int (length s) - 1 - int (length (takeWhile (\<lambda>x. x \<noteq> c) (rev s)))
      else - 1)"

text \<open>\<^verbatim>\<open>PurePath.suffix\<close>: the final component from its last dot, unless the dot is
  the first or the last character.\<close>

definition path_suffix :: "path \<Rightarrow> string" where
  "path_suffix p =
     (let nm = path_name p; i = rfind (CHR ''.'') nm
      in if 0 < i \<and> i < int (length nm) - 1 then drop (nat i) nm else [])"

section \<open>The filesystem\<close>

text \<open>
  Directories and regular files, in the order they were created. A path with no
  component is the working directory or the root and always is a directory. The times of
  a file are the ones the operating system stamps at the write. A name holding the NUL
  character is refused, as the Python runtime does; a component of more than 255 bytes
  or a path of more than 4095 bytes is refused with \<^verbatim>\<open>OSError\<close> (\<^verbatim>\<open>ENAMETOOLONG\<close>),
  as Linux does, where a character above U+007F takes two bytes in UTF-8. Symbolic
  links, the resolution of \<^verbatim>\<open>..\<close>, permissions and the space left on the device are
  outside the model.
\<close>

record fnode =
  content :: string
  st_ctime :: datetime
  st_mtime :: datetime

record filesystem =
  dirs :: "path list"
  files :: "(path \<times> fnode) list"

definition is_dir :: "filesystem \<Rightarrow> path \<Rightarrow> bool" where
  "is_dir fs p = (parts p = [] \<or> p \<in> set (dirs fs))"

definition is_file :: "filesystem \<Rightarrow> path \<Rightarrow> bool" where
  "is_file fs p = (\<not> is_dir fs p \<and> map_of (files fs) p \<noteq> None)"

definition path_exists :: "filesystem \<Rightarrow> path \<Rightarrow> bool" where
  "path_exists fs p = (is_dir fs p \<or> is_file fs p)"

definition has_nul :: "path \<Rightarrow> bool" where
  "has_nul p = (\<exists>w \<in> set (parts p). CHR 0x00 \<in> set w)"

definition utf8_length :: "string \<Rightarrow> nat" where
  "utf8_length s = sum_list (map (\<lambda>c. if (of_char c :: nat) < 128 then 1 else 2) s)"

definition name_too_long :: "path \<Rightarrow> bool" where
  "name_too_long p =
     (4095 < utf8_length (str_path p) \<or> (\<exists>w \<in> set (parts p). 255 < utf8_length w))"

text \<open>\<^verbatim>\<open>os.mkdir(p)\<close>.\<close>

definition os_mkdir :: "filesystem \<Rightarrow> path \<Rightarrow> error + filesystem" where
  "os_mkdir fs p =
     (if has_nul p then Inl (ValueError ''embedded null byte'')
      else if name_too_long p then Inl (OSError ''File name too long'')
      else if parts p = [] then Inl (FileExistsError (str_path p))
      else if is_file fs (parent p) then Inl (NotADirectoryError (str_path p))
      else if \<not> is_dir fs (parent p) then Inl (FileNotFoundError (str_path p))
      else if path_exists fs p then Inl (FileExistsError (str_path p))
      else Inr (fs\<lparr>dirs := dirs fs @ [p]\<rparr>))"

text \<open>\<^verbatim>\<open>Path.mkdir(exist_ok=True)\<close>: an existing directory is accepted, every other
  failure of \<^verbatim>\<open>os.mkdir\<close> is raised again.\<close>

definition mkdir_exist_ok :: "filesystem \<Rightarrow> path \<Rightarrow> error + filesystem" where
  "mkdir_exist_ok fs p =
     (case os_mkdir fs p of
        Inr fs' \<Rightarrow> Inr fs'
      | Inl e \<Rightarrow> (if \<not> has_nul p \<and> is_dir fs p then Inr fs else Inl e))"

text \<open>\<^verbatim>\<open>Path.mkdir(parents=True, exist_ok=True)\<close>: a missing parent is created first.\<close>

function mkdir_parents :: "filesystem \<Rightarrow> path \<Rightarrow> error + filesystem" where
  "mkdir_parents fs p =
     (case os_mkdir fs p of
        Inr fs' \<Rightarrow> Inr fs'
      | Inl (FileNotFoundError m) \<Rightarrow>
          (if parts p = [] then Inl (FileNotFoundError m)
           else (case mkdir_parents fs (parent p) of
                   Inl e \<Rightarrow> Inl e
                 | Inr fs' \<Rightarrow> mkdir_exist_ok fs' p))
      | Inl e \<Rightarrow> (if \<not> has_nul p \<and> is_dir fs p then Inr fs else Inl e))"
  by pat_completeness auto
termination
  by (relation "measure (\<lambda>(fs, p). length (parts p))") (auto simp: parent_def)

declare mkdir_parents.simps [simp del]

text \<open>Opening \<open>p\<close> for writing and writing \<open>bytes\<close>; the file gets the times \<open>ct\<close>
  and \<open>mt\<close>.\<close>

definition write_file ::
  "filesystem \<Rightarrow> datetime \<Rightarrow> datetime \<Rightarrow> path \<Rightarrow> string \<Rightarrow> error + filesystem" where
  "write_file fs ct mt p bytes =
     (if has_nul p then Inl (ValueError ''embedded null byte'')
      else if name_too_long p then Inl (OSError ''File name too long'')
      else if is_dir fs p then Inl (IsADirectoryError (str_path p))
      else if is_file fs (parent p) then Inl (NotADirectoryError (str_path p))
      else if \<not> is_dir fs (parent p) then Inl (FileNotFoundError (str_path p))
      else Inr (fs\<lparr>files := AList.update p
                  \<lparr>content = bytes, st_ctime = ct, st_mtime = mt\<rparr> (files fs)\<rparr>))"

text \<open>Opening \<open>p\<close> for reading and reading it to the end.\<close>

definition read_file :: "filesystem \<Rightarrow> path \<Rightarrow> error + string" where
  "read_file fs p =
     (if has_nul p then Inl (ValueError ''embedded null byte'')
      else if name_too_long p then Inl (OSError ''File name too long'')
      else if is_dir fs p then Inl (IsADirectoryError (str_path p))
      else (case map_of (files fs) p of
              None \<Rightarrow> Inl (FileNotFoundError (str_path p))
            | Some f \<Rightarrow> Inr (content f)))"

section \<open>Libraries and clock readings\<close>

text \<open>
  The pandas writers and readers and \<^verbatim>\<open>hashlib.md5\<close> are libraries, not code of
  the repository: they are parameters of the model. A writer or reader may raise. The
  column types of a table are the pairs \<^verbatim>\<open>data.dtypes.items()\<close> yields, with the type
  already turned into its \<^verbatim>\<open>str\<close>.
\<close>

record 'd platform =
  to_parquet :: "'d \<Rightarrow> error + string"
  to_csv :: "'d \<Rightarrow> error + string"
  to_json :: "'d \<Rightarrow> error + string"
  read_parquet :: "string \<Rightarrow> error + 'd"
  read_csv :: "string \<Rightarrow> error + 'd"
  read_json :: "string \<Rightarrow> error + 'd"
  dtypes_items :: "'d \<Rightarrow> (string \<times> string) list"
  md5_hexdigest :: "string \<Rightarrow> string"

text \<open>
  What the surroundings contribute during one call of the manager: the
  \<^verbatim>\<open>datetime.now()\<close> of \<^verbatim>\<open>store_data\<close>, the two times stamped on the written
  file, the \<^verbatim>\<open>datetime.now()\<close> of \<^verbatim>\<open>ingest_data\<close> and the one of
  \<^verbatim>\<open>add_lineage\<close>, and \<open>meanwhile\<close>: what other processes do to the filesystem
  between the return of \<^verbatim>\<open>store_data\<close> and the call of \<^verbatim>\<open>get_file_info\<close> in
  \<^verbatim>\<open>ingest_data\<close>, which holds no lock. On a lake nobody else touches it is the
  identity.
\<close>

record clock =
  now_store :: datetime
  file_ctime :: datetime
  file_mtime :: datetime
  now_id :: datetime
  now_lineage :: datetime
  meanwhile :: "filesystem \<Rightarrow> filesystem"

section \<open>\<^verbatim>\<open>DataLakeStorage\<close>\<close>

record storage =
  base_path :: path
  zones :: "(string \<times> path) list"

definition storage_of :: "string \<Rightarrow> storage" where
  "storage_of bp =
     (let b = parse_path bp in
      \<lparr>base_path = b,
       zones = [(''raw'', joinpath b ''raw''), (''bronze'', joinpath b ''bronze''),
                (''silver'', joinpath b ''silver''), (''gold'', joinpath b ''gold'')]\<rparr>)"

fun mkdir_all :: "filesystem \<Rightarrow> path list \<Rightarrow> (error + unit) \<times> filesystem" where
  "mkdir_all fs [] = (Inr (), fs)"
| "mkdir_all fs (p # ps) =
     (case mkdir_parents fs p of
        Inl e \<Rightarrow> (Inl e, fs)
      | Inr fs' \<Rightarrow> mkdir_all fs' ps)"

text \<open>\<^verbatim>\<open>DataLakeStorage.__init__\<close>: the zone table, then one directory per zone.\<close>

definition storage_init :: "filesystem \<Rightarrow> string \<Rightarrow> (error + storage) \<times> filesystem" where
  "storage_init fs bp =
     (let st = storage_of bp in
      case mkdir_all fs (map snd (zones st)) of
        (Inl e, fs') \<Rightarrow> (Inl e, fs')
      | (Inr u, fs') \<Rightarrow> (Inr st, fs'))"

text \<open>
  The write of one table by pandas: it refuses a path whose parent is no directory with
  a plain \<^verbatim>\<open>OSError\<close>, encodes the table and writes the bytes. A writer that raises
  leaves no file.
\<close>

definition write_table ::
  "('d \<Rightarrow> error + string) \<Rightarrow> filesystem \<Rightarrow> clock \<Rightarrow> 'd \<Rightarrow> path \<Rightarrow>
   (error + string) \<times> filesystem" where
  "write_table enc fs ck data file_path =
     (if \<not> is_dir fs (parent file_path)
      then (Inl (OSError (''Cannot save file into a non-existent directory: '' @
                   str_path (parent file_path))), fs)
      else
        (case enc data of
           Inl e \<Rightarrow> (Inl e, fs)
         | Inr bytes \<Rightarrow>
             (case write_file fs (file_ctime ck) (file_mtime ck) file_path bytes of
                Inl e \<Rightarrow> (Inl e, fs)
              | Inr fs' \<Rightarrow> (Inr (str_path file_path), fs'))))"

definition store_data ::
  "'d platform \<Rightarrow> storage \<Rightarrow> filesystem \<Rightarrow> clock \<Rightarrow> 'd \<Rightarrow> string \<Rightarrow> string \<Rightarrow> string \<Rightarrow>
   (error + string) \<times> filesystem" where
  "store_data pf st fs ck data zone dataset_name fmt =
     (case map_of (zones st) zone of
        None \<Rightarrow> (Inl (ValueError (''Invalid zone: '' @ zone)), fs)
      | Some zone_path \<Rightarrow>
          (let dataset_path = joinpath zone_path dataset_name in
           case mkdir_exist_ok fs dataset_path of
             Inl e \<Rightarrow> (Inl e, fs)
           | Inr fs1 \<Rightarrow>
               (let timestamp = strftime_stamp (now_store ck);
                    filename = dataset_name @ ''_'' @ timestamp @ ''.'' @ fmt;
                    file_path = joinpath dataset_path filename
                in if fmt = ''parquet'' then write_table (to_parquet pf) fs1 ck data file_path
                   else if fmt = ''csv'' then write_table (to_csv pf) fs1 ck data file_path
                   else if fmt = ''json'' then write_table (to_json pf) fs1 ck data file_path
                   else (Inl (ValueError (''Unsupported format: '' @ fmt)), fs1))))"

definition read_table ::
  "(string \<Rightarrow> error + 'd) \<Rightarrow> filesystem \<Rightarrow> path \<Rightarrow> error + 'd" where
  "read_table decode fs p =
     (case read_file fs p of Inl e \<Rightarrow> Inl e | Inr bytes \<Rightarrow> decode bytes)"

definition load_data :: "'d platform \<Rightarrow> filesystem \<Rightarrow> string \<Rightarrow> error + 'd" where
  "load_data pf fs file_path =
     (let p = parse_path file_path in
      if path_suffix p = ''.parquet'' then read_table (read_parquet pf) fs p
      else if path_suffix p = ''.csv'' then read_table (read_csv pf) fs p
      else if path_suffix p = ''.json'' then read_table (read_json pf) fs p
      else Inl (ValueError (''Unsupported file format: '' @ path_suffix p)))"

text \<open>\<^verbatim>\<open>list_datasets\<close>: the names of the directories right under the zone. The
  code returns them in the order of \<^verbatim>\<open>os.listdir\<close>, which is not specified; the order
  here, the one of creation, is one such order and nothing proved below depends on it.\<close>

definition list_datasets :: "storage \<Rightarrow> filesystem \<Rightarrow> string \<Rightarrow> error + string list" where
  "list_datasets st fs zone =
     (case map_of (zones st) zone of
        None \<Rightarrow> Inr []
      | Some zone_path \<Rightarrow>
          (if is_file fs zone_path then Inl (NotADirectoryError (str_path zone_path))
           else if \<not> is_dir fs zone_path then Inl (FileNotFoundError (str_path zone_path))
           else Inr (map path_name
                  (filter (\<lambda>d. parts d \<noteq> [] \<and> parent d = zone_path) (dirs fs)))))"

record file_info =
  info_size_bytes :: int
  info_created_at :: datetime
  info_modified_at :: datetime
  info_checksum :: string

text \<open>\<^verbatim>\<open>open(s, "rb")\<close> on the string itself: the empty string names no file,
  though \<^verbatim>\<open>Path("")\<close> is the working directory.\<close>

definition open_read :: "filesystem \<Rightarrow> string \<Rightarrow> error + string" where
  "open_read fs s = (if s = [] then Inl (FileNotFoundError []) else read_file fs (parse_path s))"

text \<open>\<^verbatim>\<open>get_file_info\<close>: \<open>None\<close> is the empty dictionary returned for a path that
  does not exist.\<close>

definition get_file_info ::
  "'d platform \<Rightarrow> filesystem \<Rightarrow> string \<Rightarrow> error + file_info option" where
  "get_file_info pf fs file_path =
     (let p = parse_path file_path in
      if \<not> path_exists fs p then Inr None
      else (case open_read fs file_path of
              Inl e \<Rightarrow> Inl e
            | Inr bytes \<Rightarrow>
                (case map_of (files fs) p of
                   None \<Rightarrow> Inl (FileNotFoundError (str_path p))
                 | Some f \<Rightarrow>
                     Inr (Some \<lparr>info_size_bytes = int (length (content f)),
                                info_created_at = st_ctime f,
                                info_modified_at = st_mtime f,
                                info_checksum = md5_hexdigest pf bytes\<rparr>))))"

section \<open>JSON text of string lists and string dictionaries\<close>

text \<open>
  \<^verbatim>\<open>json.dumps\<close> with its defaults (\<^verbatim>\<open>ensure_ascii\<close>, separators \<^verbatim>\<open>", "\<close> and
  \<^verbatim>\<open>": "\<close>) on the two shapes \<^verbatim>\<open>register_asset\<close> gives it: a list of strings
  and a dictionary from strings to strings. A dictionary is the list of its items in
  insertion order.
\<close>

definition hex_digit :: "nat \<Rightarrow> char" where
  "hex_digit d = ''0123456789abcdef'' ! (d mod 16)"

definition hex4 :: "nat \<Rightarrow> string" where
  "hex4 n = [hex_digit (n div 4096), hex_digit (n div 256), hex_digit (n div 16), hex_digit n]"

definition json_escape_char :: "char \<Rightarrow> string" where
  "json_escape_char c =
     (if c = CHR 0x5C then [CHR 0x5C, CHR 0x5C]
      else if c = CHR 0x22 then [CHR 0x5C, CHR 0x22]
      else if c = CHR 0x08 then [CHR 0x5C, CHR ''b'']
      else if c = CHR 0x0C then [CHR 0x5C, CHR ''f'']
      else if c = CHR 0x0A then [CHR 0x5C, CHR ''n'']
      else if c = CHR 0x0D then [CHR 0x5C, CHR ''r'']
      else if c = CHR 0x09 then [CHR 0x5C, CHR ''t'']
      else if 32 \<le> (of_char c :: nat) \<and> (of_char c :: nat) \<le> 126 then [c]
      else [CHR 0x5C, CHR ''u''] @ hex4 (of_char c))"

definition json_string :: "string \<Rightarrow> string" where
  "json_string s = [CHR 0x22] @ concat (map json_escape_char s) @ [CHR 0x22]"

fun join_comma :: "string list \<Rightarrow> string" where
  "join_comma [] = []"
| "join_comma [w] = w"
| "join_comma (w # ws) = w @ '', '' @ join_comma ws"

definition dumps_list :: "string list \<Rightarrow> string" where
  "dumps_list xs = ''['' @ join_comma (map json_string xs) @ '']''"

definition dumps_dict :: "(string \<times> string) list \<Rightarrow> string" where
  "dumps_dict kvs =
     ''{'' @ join_comma (map (\<lambda>(k, v). json_string k @ '': '' @ json_string v) kvs) @ ''}''"

text \<open>
  \<^verbatim>\<open>json.loads\<close>, for the same two shapes. White space is skipped where the decoder
  skips it, a string is scanned in strict mode, an object is turned into a dictionary
  pair by pair, so that a repeated key keeps its first position and its last value.
  The decoder raises \<^verbatim>\<open>JSONDecodeError\<close>, a \<^verbatim>\<open>ValueError\<close>; the position it
  appends to the message is left out. A document of another shape (a number, a nested
  value) or an escape for a code point above U+00FF is reported as a \<^verbatim>\<open>ValueError\<close>
  too: \<^verbatim>\<open>register_asset\<close> never writes one.
\<close>

definition is_ws :: "char \<Rightarrow> bool" where
  "is_ws c = (c = CHR '' '' \<or> c = CHR 0x09 \<or> c = CHR 0x0A \<or> c = CHR 0x0D)"

definition skip_ws :: "string \<Rightarrow> string" where
  "skip_ws s = dropWhile is_ws s"

definition hex_val :: "char \<Rightarrow> nat option" where
  "hex_val c =
     (let k = (of_char c :: nat) in
      if 48 \<le> k \<and> k \<le> 57 then Some (k - 48)
      else if 97 \<le> k \<and> k \<le> 102 then Some (k - 87)
      else if 65 \<le> k \<and> k \<le> 70 then Some (k - 55)
      else None)"

definition hex4_val :: "string \<Rightarrow> nat option" where
  "hex4_val s =
     (case s of
        [a, b, c, d] \<Rightarrow>
          (case (hex_val a, hex_val b, hex_val c, hex_val d) of
             (Some x, Some y, Some z, Some w) \<Rightarrow> Some (4096 * x + 256 * y + 16 * z + w)
           | _ \<Rightarrow> None)
      | _ \<Rightarrow> None)"

definition unescape :: "char \<Rightarrow> char option" where
  "unescape e =
     (if e = CHR 0x22 then Some (CHR 0x22)
      else if e = CHR 0x5C then Some (CHR 0x5C)
      else if e = CHR ''/'' then Some (CHR ''/'')
      else if e = CHR ''b'' then Some (CHR 0x08)
      else if e = CHR ''f'' then Some (CHR 0x0C)
      else if e = CHR ''n'' then Some (CHR 0x0A)
      else if e = CHR ''r'' then Some (CHR 0x0D)
      else if e = CHR ''t'' then Some (CHR 0x09)
      else None)"

text \<open>\<^verbatim>\<open>scanstring\<close>, started behind the opening quote: the decoded string and the
  text behind the closing quote.\<close>

fun scanstring :: "string \<Rightarrow> string \<Rightarrow> error + string \<times> string" where
  "scanstring acc [] = Inl (ValueError ''Unterminated string starting at'')"
| "scanstring acc (c # r) =
     (if c = CHR 0x22 then Inr (acc, r)
      else if c = CHR 0x5C then
        (case r of
           [] \<Rightarrow> Inl (ValueError ''Unterminated string starting at'')
         | e # r' \<Rightarrow>
             (if e = CHR ''u'' then
                (case hex4_val (take 4 r') of
                   None \<Rightarrow> Inl (ValueError ''Invalid uXXXX escape'')
                 | Some n \<Rightarrow>
                     (if n < 256 then scanstring (acc @ [char_of n]) (drop 4 r')
                      else Inl (ValueError ''code point above U+00FF'')))
              else
                (case unescape e of
                   None \<Rightarrow> Inl (ValueError ''Invalid escape'')
                 | Some x \<Rightarrow> scanstring (acc @ [x]) r')))
      else if (of_char c :: nat) < 32 then Inl (ValueError ''Invalid control character at'')
      else scanstring (acc @ [c]) r)"

lemma skip_ws_le: "length (skip_ws s) \<le> length s"
  by (simp add: skip_ws_def length_dropWhile_le)

lemma scanstring_shorter:
  "scanstring acc s = Inr (v, rest) \<Longrightarrow> length rest < length s"
proof (induction acc s rule: scanstring.induct)
  case (1 acc)
  then show ?case by simp
next
  case (2 acc c r)
  show ?case
  proof (cases "c = CHR 0x22")
    case True
    with 2 show ?thesis by simp
  next
    case nq: False
    show ?thesis
    proof (cases "c = CHR 0x5C")
      case True
      show ?thesis
      proof (cases r)
        case Nil
        with True 2 show ?thesis by simp
      next
        case (Cons e r')
        show ?thesis
        proof (cases "e = CHR ''u''")
          case eu: True
          then obtain n where n: "hex4_val (take 4 r') = Some n" "n < 256"
            and sc: "scanstring (acc @ [char_of n]) (drop 4 r') = Inr (v, rest)"
            using 2(4) True Cons by (auto split: option.splits if_splits)
          from 2(1) [OF nq True Cons eu n(1) n(2) sc] show ?thesis using Cons by simp
        next
          case neu: False
          then obtain x where x: "unescape e = Some x"
            and sc: "scanstring (acc @ [x]) r' = Inr (v, rest)"
            using 2(4) True Cons by (auto split: option.splits if_splits)
          from 2(2) [OF nq True Cons neu x sc] show ?thesis using Cons by simp
        qed
      qed
    next
      case False
      with nq 2 show ?thesis by (simp split: if_splits)
    qed
  qed
qed

text \<open>The elements of an array, started at the first one: the strings and the text
  behind the closing bracket.\<close>

function parse_strings :: "string \<Rightarrow> error + string list \<times> string" where
  "parse_strings s =
     (case s of
        [] \<Rightarrow> Inl (ValueError ''Expecting value'')
      | c # r \<Rightarrow>
          (if c \<noteq> CHR 0x22 then Inl (ValueError ''Expecting value'')
           else
             (case scanstring [] r of
                Inl e \<Rightarrow> Inl e
              | Inr (v, r1) \<Rightarrow>
                  (case skip_ws r1 of
                     [] \<Rightarrow> Inl (ValueError ''Expecting , delimiter'')
                   | d # r2 \<Rightarrow>
                       (if d = CHR '']'' then Inr ([v], r2)
                        else if d \<noteq> CHR '','' then Inl (ValueError ''Expecting , delimiter'')
                        else
                          (case parse_strings (skip_ws r2) of
                             Inl e \<Rightarrow> Inl e
                           | Inr (vs, r3) \<Rightarrow> Inr (v # vs, r3)))))))"
  by pat_completeness auto
termination
proof (relation "measure length", goal_cases)
  case 1
  show ?case by simp
next
  case (2 s c r x v r1 d r2)
  have a: "length r1 < length r" using 2 scanstring_shorter by metis
  have b: "length (d # r2) \<le> length r1" using skip_ws_le [of r1] 2 by simp
  have c: "length (skip_ws r2) \<le> length r2" by (rule skip_ws_le)
  show ?case using a b c 2 by simp
qed

declare parse_strings.simps [simp del]

text \<open>The members of an object, started at the first key.\<close>

function parse_pairs :: "string \<Rightarrow> error + (string \<times> string) list \<times> string" where
  "parse_pairs s =
     (case s of
        [] \<Rightarrow> Inl (ValueError ''Expecting property name enclosed in double quotes'')
      | c # r \<Rightarrow>
          (if c \<noteq> CHR 0x22
           then Inl (ValueError ''Expecting property name enclosed in double quotes'')
           else
             (case scanstring [] r of
                Inl e \<Rightarrow> Inl e
              | Inr (k, r1) \<Rightarrow>
                  (case skip_ws r1 of
                     [] \<Rightarrow> Inl (ValueError ''Expecting : delimiter'')
                   | d # r2 \<Rightarrow>
                       (if d \<noteq> CHR '':'' then Inl (ValueError ''Expecting : delimiter'')
                        else
                          (case skip_ws r2 of
                             [] \<Rightarrow> Inl (ValueError ''Expecting value'')
                           | q # r3 \<Rightarrow>
                               (if q \<noteq> CHR 0x22 then Inl (ValueError ''Expecting value'')
                                else
                                  (case scanstring [] r3 of
                                     Inl e \<Rightarrow> Inl e
                                   | Inr (v, r4) \<Rightarrow>
                                       (case skip_ws r4 of
                                          [] \<Rightarrow> Inl (ValueError ''Expecting , delimiter'')
                                        | x # r5 \<Rightarrow>
                                            (if x = CHR ''}'' then Inr ([(k, v)], r5)
                                             else if x \<noteq> CHR '',''
                                             then Inl (ValueError ''Expecting , delimiter'')
                                             else
                                               (case parse_pairs (skip_ws r5) of
                                                  Inl e \<Rightarrow> Inl e
                                                | Inr (kvs, r6) \<Rightarrow>
                                                    Inr ((k, v) # kvs, r6))))))))))))"
  by pat_completeness auto
termination
proof (relation "measure length", goal_cases)
  case 1
  show ?case by simp
next
  case (2 s c r x k r1 d r2 q r3 y v r4 z r5)
  have a: "length r1 < length r" using 2 scanstring_shorter by metis
  have b: "length (d # r2) \<le> length r1" using skip_ws_le [of r1] 2 by simp
  have c: "length (q # r3) \<le> length r2" using skip_ws_le [of r2] 2 by simp
  have d: "length r4 < length r3" using 2 scanstring_shorter by metis
  have e: "length (z # r5) \<le> length r4" using skip_ws_le [of r4] 2 by simp
  have f: "length (skip_ws r5) \<le> length r5" by (rule skip_ws_le)
  show ?case using a b c d e f 2 by simp
qed

declare parse_pairs.simps [simp del]

text \<open>Behind the value only white space may follow.\<close>

definition finish :: "'a \<Rightarrow> string \<Rightarrow> error + 'a" where
  "finish v rest = (if skip_ws rest = [] then Inr v else Inl (ValueError ''Extra data''))"

definition loads_list :: "string \<Rightarrow> error + string list" where
  "loads_list s =
     (case skip_ws s of
        [] \<Rightarrow> Inl (ValueError ''Expecting value'')
      | c # r \<Rightarrow>
          (if c \<noteq> CHR ''['' then Inl (ValueError ''not an array of strings'')
           else
             (case skip_ws r of
                [] \<Rightarrow> Inl (ValueError ''Expecting value'')
              | d # r' \<Rightarrow>
                  (if d = CHR '']'' then finish [] r'
                   else
                     (case parse_strings (d # r') of
                        Inl e \<Rightarrow> Inl e
                      | Inr (vs, rest) \<Rightarrow> finish vs rest)))))"

text \<open>\<^verbatim>\<open>dict(pairs)\<close>: a key seen again keeps its place and takes the new value.\<close>

definition dict_of :: "(string \<times> string) list \<Rightarrow> (string \<times> string) list" where
  "dict_of kvs = foldl (\<lambda>d (k, v). AList.update k v d) [] kvs"

definition loads_dict :: "string \<Rightarrow> error + (string \<times> string) list" where
  "loads_dict s =
     (case skip_ws s of
        [] \<Rightarrow> Inl (ValueError ''Expecting value'')
      | c # r \<Rightarrow>
          (if c \<noteq> CHR ''{'' then Inl (ValueError ''not an object of strings'')
           else
             (case skip_ws r of
                [] \<Rightarrow> Inl (ValueError ''Expecting property name enclosed in double quotes'')
              | d # r' \<Rightarrow>
                  (if d = CHR ''}'' then finish [] r'
                   else
                     (case parse_pairs (d # r') of
                        Inl e \<Rightarrow> Inl e
                      | Inr (kvs, rest) \<Rightarrow> finish (dict_of kvs) rest)))))"

section \<open>The \<^verbatim>\<open>LIKE\<close> operator of SQLite\<close>

text \<open>
  \<^verbatim>\<open>text LIKE pattern\<close> with no \<^verbatim>\<open>ESCAPE\<close> clause: \<^verbatim>\<open>%\<close> in the pattern stands
  for any run of characters, \<^verbatim>\<open>_\<close> for exactly one, and every other character for
  itself, where the letters A to Z and a to z are compared without regard to case.
  SQLite reads both operands as C strings, so each ends at its first NUL character.
\<close>

definition ascii_lower :: "char \<Rightarrow> char" where
  "ascii_lower c =
     (let k = (of_char c :: nat) in if 65 \<le> k \<and> k \<le> 90 then char_of (k + 32) else c)"

fun like :: "string \<Rightarrow> string \<Rightarrow> bool" where
  "like [] [] = True"
| "like [] (c # cs) = False"
| "like (p # ps) [] = (p = CHR ''%'' \<and> like ps [])"
| "like (p # ps) (c # cs) =
     (if p = CHR ''%'' then like ps (c # cs) \<or> like (p # ps) cs
      else if p = CHR ''_'' then like ps cs
      else ascii_lower p = ascii_lower c \<and> like ps cs)"

definition c_string :: "string \<Rightarrow> string" where
  "c_string s = takeWhile (\<lambda>c. c \<noteq> CHR 0x00) s"

definition sql_like :: "string \<Rightarrow> string \<Rightarrow> bool" where
  "sql_like pattern txt = like (c_string pattern) (c_string txt)"

section \<open>\<^verbatim>\<open>DataAsset\<close> and \<^verbatim>\<open>MetadataCatalog\<close>\<close>

record data_asset =
  asset_id :: string
  name :: string
  path :: string
  format :: string
  size_bytes :: int
  created_at :: datetime
  updated_at :: datetime
  schema :: "(string \<times> string) list"
  tags :: "string list"
  owner :: string
  description :: string
  checksum :: string

text \<open>
  A row of the table \<^verbatim>\<open>data_assets\<close>, column by column (\<^verbatim>\<open>row[0]\<close> to
  \<^verbatim>\<open>row[11]\<close>), and a row of the table \<^verbatim>\<open>lineage\<close>. The rows of a table are
  kept in the order of their rowids, which is the order a scan returns them in.
\<close>

record asset_row =
  col_asset_id :: string
  col_name :: string
  col_path :: string
  col_format :: string
  col_size_bytes :: int
  col_created_at :: string
  col_updated_at :: string
  col_schema :: string
  col_tags :: string
  col_owner :: string
  col_description :: string
  col_checksum :: string

record lineage_row =
  lin_id :: nat
  source_asset_id :: string
  target_asset_id :: string
  transformation :: string
  lin_created_at :: string

text \<open>
  The database file. \<open>lineage_seq\<close> is the last value the \<^verbatim>\<open>AUTOINCREMENT\<close> key
  has taken. \<open>db_writable\<close> is the state of the file as the operating system sees
  it: when it cannot be written (read-only file, full disk) a statement that writes
  raises \<^verbatim>\<open>sqlite3.OperationalError\<close>, while a query still answers. The foreign keys
  the schema declares are not enforced by SQLite unless a connection turns them on,
  which no connection of the catalog does.
\<close>

record catalog =
  data_assets :: "asset_row list"
  lineage :: "lineage_row list"
  lineage_seq :: nat
  db_writable :: bool

definition empty_catalog :: catalog where
  "empty_catalog = \<lparr>data_assets = [], lineage = [], lineage_seq = 0, db_writable = True\<rparr>"

definition asset_to_row :: "data_asset \<Rightarrow> asset_row" where
  "asset_to_row a =
     \<lparr>col_asset_id = asset_id a, col_name = name a, col_path = path a,
      col_format = format a, col_size_bytes = size_bytes a,
      col_created_at = isoformat (created_at a), col_updated_at = isoformat (updated_at a),
      col_schema = dumps_dict (schema a), col_tags = dumps_list (tags a),
      col_owner = owner a, col_description = description a, col_checksum = checksum a\<rparr>"

text \<open>An \<^verbatim>\<open>INTEGER\<close> of SQLite has 64 bits; binding a larger Python integer raises
  \<^verbatim>\<open>OverflowError\<close>.\<close>

definition fits_int64 :: "int \<Rightarrow> bool" where
  "fits_int64 i = (- (2 ^ 63) \<le> i \<and> i < 2 ^ 63)"

text \<open>
  \<^verbatim>\<open>register_asset\<close>: \<^verbatim>\<open>INSERT OR REPLACE\<close> deletes the row that has the same key
  and adds the new row with a fresh rowid, so at the end of the table. Every exception
  is caught and turned into \<^verbatim>\<open>False\<close>; the message it prints is not modelled.
\<close>

definition register_asset :: "catalog \<Rightarrow> data_asset \<Rightarrow> bool \<times> catalog" where
  "register_asset cat a =
     (if \<not> fits_int64 (size_bytes a) then (False, cat)
      else if \<not> db_writable cat then (False, cat)
      else (True, cat\<lparr>data_assets :=
              filter (\<lambda>r. col_asset_id r \<noteq> asset_id a) (data_assets cat) @ [asset_to_row a]\<rparr>))"

text \<open>The construction of a \<^verbatim>\<open>DataAsset\<close> from a row; the arguments are evaluated
  in the order they are written, and the first one that raises ends it.\<close>

definition row_to_asset :: "asset_row \<Rightarrow> error + data_asset" where
  "row_to_asset r =
     (case fromisoformat (col_created_at r) of
        Inl e \<Rightarrow> Inl e
      | Inr c \<Rightarrow>
          (case fromisoformat (col_updated_at r) of
             Inl e \<Rightarrow> Inl e
           | Inr u \<Rightarrow>
               (case loads_dict (col_schema r) of
                  Inl e \<Rightarrow> Inl e
                | Inr sch \<Rightarrow>
                    (case loads_list (col_tags r) of
                       Inl e \<Rightarrow> Inl e
                     | Inr tgs \<Rightarrow>
                         Inr \<lparr>asset_id = col_asset_id r, name = col_name r,
                              path = col_path r, format = col_format r,
                              size_bytes = col_size_bytes r, created_at = c,
                              updated_at = u, schema = sch, tags = tgs,
                              owner = col_owner r, description = col_description r,
                              checksum = col_checksum r\<rparr>))))"

definition get_asset :: "catalog \<Rightarrow> string \<Rightarrow> error + data_asset option" where
  "get_asset cat aid =
     (case find (\<lambda>r. col_asset_id r = aid) (data_assets cat) of
        None \<Rightarrow> Inr None
      | Some r \<Rightarrow> (case row_to_asset r of Inl e \<Rightarrow> Inl e | Inr a \<Rightarrow> Inr (Some a)))"

text \<open>
  The \<^verbatim>\<open>WHERE\<close> clause \<^verbatim>\<open>search_assets\<close> builds: the query, when it is not empty,
  against the name or the description; every tag, when the list is given and not empty,
  against the serialized tags.
\<close>

definition contains_pattern :: "string \<Rightarrow> string" where
  "contains_pattern q = ''%'' @ q @ ''%''"

definition row_matches :: "string \<Rightarrow> string list option \<Rightarrow> asset_row \<Rightarrow> bool" where
  "row_matches query tgs r =
     ((if query \<noteq> [] then sql_like (contains_pattern query) (col_name r) \<or>
                           sql_like (contains_pattern query) (col_description r)
       else True) \<and>
      (case tgs of
         None \<Rightarrow> True
       | Some ts \<Rightarrow>
           (if ts \<noteq> [] then list_all (\<lambda>t. sql_like (contains_pattern t) (col_tags r)) ts
            else True)))"

definition search_rows :: "catalog \<Rightarrow> string \<Rightarrow> string list option \<Rightarrow> asset_row list" where
  "search_rows cat query tgs = filter (row_matches query tgs) (data_assets cat)"

fun rows_to_assets :: "asset_row list \<Rightarrow> error + data_asset list" where
  "rows_to_assets [] = Inr []"
| "rows_to_assets (r # rs) =
     (case row_to_asset r of
        Inl e \<Rightarrow> Inl e
      | Inr a \<Rightarrow> (case rows_to_assets rs of Inl e \<Rightarrow> Inl e | Inr as \<Rightarrow> Inr (a # as)))"

definition search_assets ::
  "catalog \<Rightarrow> string \<Rightarrow> string list option \<Rightarrow> error + data_asset list" where
  "search_assets cat query tgs = rows_to_assets (search_rows cat query tgs)"

definition add_lineage ::
  "catalog \<Rightarrow> datetime \<Rightarrow> string \<Rightarrow> string \<Rightarrow> string \<Rightarrow> (error + unit) \<times> catalog" where
  "add_lineage cat now source_id target_id transf =
     (if \<not> db_writable cat
      then (Inl (OperationalError ''attempt to write a readonly database''), cat)
      else (Inr (),
            cat\<lparr>lineage := lineage cat @
                   [\<lparr>lin_id = Suc (lineage_seq cat), source_asset_id = source_id,
                     target_asset_id = target_id, transformation = transf,
                     lin_created_at = isoformat now\<rparr>],
                lineage_seq := Suc (lineage_seq cat)\<rparr>))"

section \<open>\<^verbatim>\<open>DataLakeManager\<close>\<close>

text \<open>The \<^verbatim>\<open>DataAsset\<close> that \<^verbatim>\<open>ingest_data\<close> builds from the path of the stored
  file and the information about it.\<close>

definition new_asset_id :: "'d platform \<Rightarrow> clock \<Rightarrow> string \<Rightarrow> string" where
  "new_asset_id pf ck nm = md5_hexdigest pf (nm @ ''_'' @ str_datetime (now_id ck))"

definition build_asset ::
  "'d platform \<Rightarrow> clock \<Rightarrow> 'd \<Rightarrow> string \<Rightarrow> string \<Rightarrow> string \<Rightarrow> string list option \<Rightarrow>
   string \<Rightarrow> file_info \<Rightarrow> data_asset" where
  "build_asset pf ck data nm own descr tgs file_path info =
     \<lparr>asset_id = new_asset_id pf ck nm, name = nm, path = file_path,
      format = drop 1 (path_suffix (parse_path file_path)),
      size_bytes = info_size_bytes info,
      created_at = info_created_at info,
      updated_at = info_modified_at info,
      schema = dict_of (dtypes_items pf data),
      tags = (case tgs of None \<Rightarrow> [] | Some ts \<Rightarrow> ts),
      owner = own, description = descr,
      checksum = info_checksum info\<rparr>"

text \<open>The part of \<^verbatim>\<open>ingest_data\<close> behind the call of \<^verbatim>\<open>store_data\<close>: the file
  information, the identifier, the asset and its registration, whose result is dropped.
  An empty file information makes the lookup of \<^verbatim>\<open>size_bytes\<close> raise
  \<^verbatim>\<open>KeyError\<close>.\<close>

definition ingest_stored ::
  "'d platform \<Rightarrow> filesystem \<Rightarrow> catalog \<Rightarrow> clock \<Rightarrow> 'd \<Rightarrow> string \<Rightarrow> string \<Rightarrow> string \<Rightarrow>
   string list option \<Rightarrow> string \<Rightarrow> (error + string) \<times> catalog" where
  "ingest_stored pf fs cat ck data nm own descr tgs file_path =
     (case get_file_info pf fs file_path of
        Inl e \<Rightarrow> (Inl e, cat)
      | Inr None \<Rightarrow> (Inl (KeyError ''size_bytes''), cat)
      | Inr (Some info) \<Rightarrow>
          (case register_asset cat (build_asset pf ck data nm own descr tgs file_path info) of
             (ok, cat') \<Rightarrow> (Inr (new_asset_id pf ck nm), cat')))"

definition ingest_data ::
  "'d platform \<Rightarrow> storage \<Rightarrow> filesystem \<Rightarrow> catalog \<Rightarrow> clock \<Rightarrow> 'd \<Rightarrow> string \<Rightarrow> string \<Rightarrow>
   string \<Rightarrow> string list option \<Rightarrow> string \<Rightarrow> (error + string) \<times> filesystem \<times> catalog" where
  "ingest_data pf st fs cat ck data nm own descr tgs zone =
     (case store_data pf st fs ck data zone nm ''parquet'' of
        (Inl e, fs') \<Rightarrow> (Inl e, fs', cat)
      | (Inr file_path, fs') \<Rightarrow>
          (let fs'' = meanwhile ck fs' in
           case ingest_stored pf fs'' cat ck data nm own descr tgs file_path of
             (res, cat') \<Rightarrow> (res, fs'', cat')))"

text \<open>The caller's function: what it computes, which may raise, and its
  \<^verbatim>\<open>__name__\<close> when it has one.\<close>

record 'd transform_func =
  call :: "'d \<Rightarrow> error + 'd"
  func_name :: "string option"

definition transform_data ::
  "'d platform \<Rightarrow> storage \<Rightarrow> filesystem \<Rightarrow> catalog \<Rightarrow> clock \<Rightarrow> string \<Rightarrow> 'd transform_func \<Rightarrow>
   string \<Rightarrow> string \<Rightarrow> (error + string) \<times> filesystem \<times> catalog" where
  "transform_data pf st fs cat ck source_id f target_name target_zone =
     (case get_asset cat source_id of
        Inl e \<Rightarrow> (Inl e, fs, cat)
      | Inr None \<Rightarrow> (Inl (ValueError (''Source asset not found: '' @ source_id)), fs, cat)
      | Inr (Some src) \<Rightarrow>
          (case load_data pf fs (path src) of
             Inl e \<Rightarrow> (Inl e, fs, cat)
           | Inr source_data \<Rightarrow>
               (case call f source_data of
                  Inl e \<Rightarrow> (Inl e, fs, cat)
                | Inr transformed \<Rightarrow>
                    (case ingest_data pf st fs cat ck transformed target_name (owner src)
                            (''Transformed from '' @ name src)
                            (Some (tags src @ [''transformed''])) target_zone of
                       (Inl e, fs', cat') \<Rightarrow> (Inl e, fs', cat')
                     | (Inr target_id, fs', cat') \<Rightarrow>
                         (case add_lineage cat' (now_lineage ck) source_id target_id
                                 (case func_name f of
                                    Some n \<Rightarrow> n
                                  | None \<Rightarrow> ''custom_transform'') of
                            (Inl e, cat'') \<Rightarrow> (Inl e, fs', cat'')
                          | (Inr u, cat'') \<Rightarrow> (Inr target_id, fs', cat''))))))"

text \<open>
  One entry of the summary. \<open>total_size\<close> is the sum of the sizes in bytes; its
  conversion to megabytes, a float rounded to two decimals, is not modelled.
\<close>

record zone_stats =
  dataset_count :: nat
  asset_count :: nat
  total_size :: int

fun zone_summaries ::
  "storage \<Rightarrow> filesystem \<Rightarrow> catalog \<Rightarrow> string list \<Rightarrow> error + (string \<times> zone_stats) list" where
  "zone_summaries st fs cat [] = Inr []"
| "zone_summaries st fs cat (zone_name # zs) =
     (case list_datasets st fs zone_name of
        Inl e \<Rightarrow> Inl e
      | Inr datasets \<Rightarrow>
          (case search_assets cat [] None of
             Inl e \<Rightarrow> Inl e
           | Inr assets \<Rightarrow>
               (let zone_assets = filter (\<lambda>a. sublist zone_name (path a)) assets;
                    entry = (zone_name,
                             \<lparr>dataset_count = length datasets,
                              asset_count = length zone_assets,
                              total_size = sum_list (map size_bytes zone_assets)\<rparr>)
                in case zone_summaries st fs cat zs of
                     Inl e \<Rightarrow> Inl e
                   | Inr rest \<Rightarrow> Inr (entry # rest))))"

definition get_zone_summary ::
  "storage \<Rightarrow> filesystem \<Rightarrow> catalog \<Rightarrow> error + (string \<times> zone_stats) list" where
  "get_zone_summary st fs cat = zone_summaries st fs cat (map fst (zones st))"

section \<open>Auxiliary notions\<close>

text \<open>The components pathlib produces: not empty, not \<^verbatim>\<open>.\<close>, without a slash.\<close>

definition wf_parts :: "string list \<Rightarrow> bool" where
  "wf_parts ws = (\<forall>w \<in> set ws. w \<noteq> [] \<and> w \<noteq> ''.'' \<and> CHR ''/'' \<notin> set w)"

definition wf_path :: "path \<Rightarrow> bool" where
  "wf_path p = ((anchor p = [] \<or> anchor p = ''/'' \<or> anchor p = ''//'') \<and> wf_parts (parts p))"

text \<open>The file name \<^verbatim>\<open>store_data\<close> builds, and the path it writes to below the
  directory \<open>zp\<close> of the zone.\<close>

definition file_name :: "string \<Rightarrow> clock \<Rightarrow> string \<Rightarrow> string" where
  "file_name dn ck fmt = dn @ ''_'' @ strftime_stamp (now_store ck) @ ''.'' @ fmt"

definition target_file :: "path \<Rightarrow> string \<Rightarrow> clock \<Rightarrow> string \<Rightarrow> path" where
  "target_file zp dn ck fmt = joinpath (joinpath zp dn) (file_name dn ck fmt)"

text \<open>The writer and the reader \<^verbatim>\<open>store_data\<close> and \<^verbatim>\<open>load_data\<close> pick for a
  supported format.\<close>

definition writer_for :: "'d platform \<Rightarrow> string \<Rightarrow> 'd \<Rightarrow> error + string" where
  "writer_for pf fmt =
     (if fmt = ''parquet'' then to_parquet pf else if fmt = ''csv'' then to_csv pf
      else to_json pf)"


definition supported :: "string \<Rightarrow> bool" where
  "supported fmt = (fmt = ''parquet'' \<or> fmt = ''csv'' \<or> fmt = ''json'')"

section \<open>Concrete inputs\<close>

text \<open>
  Values at which the model is evaluated. \<open>plain_platform\<close> stands in for the
  libraries: a table is a string and is its own encoding in every format, and the
  digest of a text is the text. \<open>fresh_fs\<close> is a filesystem on which only
  \<^verbatim>\<open>DataLakeStorage("data_lake")\<close> has run.
\<close>

definition plain_platform :: "string platform" where
  "plain_platform =
     \<lparr>to_parquet = Inr, to_csv = Inr, to_json = Inr,
      read_parquet = Inr, read_csv = Inr, read_json = Inr,
      dtypes_items = (\<lambda>d. [(''id'', ''int64''), (''name'', ''object'')]),
      md5_hexdigest = (\<lambda>s. s)\<rparr>"

definition sample_time :: datetime where
  "sample_time =
     \<lparr>year = 2024, month = 1, day = 2, hour = 3, minute = 4, second = 5, microsecond = 0\<rparr>"

definition sample_clock :: clock where
  "sample_clock =
     \<lparr>now_store = sample_time, file_ctime = sample_time, file_mtime = sample_time,
      now_id = sample_time\<lparr>microsecond := 678\<rparr>, now_lineage = sample_time,
      meanwhile = (\<lambda>fs. fs)\<rparr>"

definition empty_fs :: filesystem where
  "empty_fs = \<lparr>dirs = [], files = []\<rparr>"

definition fresh_fs :: filesystem where
  "fresh_fs = snd (storage_init empty_fs ''data_lake'')"

definition lake :: storage where
  "lake = storage_of ''data_lake''"

definition twice_func :: "string transform_func" where
  "twice_func = \<lparr>call = (\<lambda>d. Inr (d @ d)), func_name = Some ''twice''\<rparr>"

definition readonly_catalog :: catalog where
  "readonly_catalog = empty_catalog\<lparr>db_writable := False\<rparr>"

text \<open>A clock under which another process removes every file of the lake right after
  the write.\<close>

definition vanish_clock :: clock where
  "vanish_clock = sample_clock\<lparr>meanwhile := (\<lambda>fs. fs\<lparr>files := []\<rparr>)\<rparr>"

definition stored_path :: string where
  "stored_path = ''data_lake/raw/t1/t1_20240102_030405.parquet''"

definition stored_fs :: filesystem where
  "stored_fs =
     \<lparr>dirs = dirs fresh_fs @ [Path [] [''data_lake'', ''raw'', ''t1'']],
      files = [(Path [] [''data_lake'', ''raw'', ''t1'', ''t1_20240102_030405.parquet''],
                \<lparr>content = ''abc'', st_ctime = sample_time, st_mtime = sample_time\<rparr>)]\<rparr>"

definition stored_info :: file_info where
  "stored_info =
     \<lparr>info_size_bytes = 3, info_created_at = sample_time, info_modified_at = sample_time,
      info_checksum = ''abc''\<rparr>"

definition first_asset :: data_asset where
  "first_asset =
     build_asset plain_platform sample_clock ''abc'' ''t1'' ''me'' ''first'' (Some [''abc''])
       stored_path stored_info"

definition first_catalog :: catalog where
  "first_catalog = snd (register_asset empty_catalog first_asset)"

definition readonly_first_catalog :: catalog where
  "readonly_first_catalog = first_catalog\<lparr>db_writable := False\<rparr>"

definition transformed :: "(error + string) \<times> filesystem \<times> catalog" where
  "transformed =
     transform_data plain_platform (storage_of ''data_lake'') stored_fs first_catalog
       sample_clock (asset_id first_asset) twice_func ''t1_copy'' ''silver''"

definition copied_asset :: data_asset where
  "copied_asset =
     \<lparr>asset_id = ''t1_copy_2024-01-02 03:04:05.000678'', name = ''t1_copy'',
      path = ''data_lake/silver/t1_copy/t1_copy_20240102_030405.parquet'',
      format = ''parquet'', size_bytes = 6, created_at = sample_time,
      updated_at = sample_time, schema = [(''id'', ''int64''), (''name'', ''object'')],
      tags = [''abc'', ''transformed''], owner = ''me'',
      description = ''Transformed from t1'', checksum = ''abcabc''\<rparr>"

section \<open>Properties of paths\<close>

lemma split_slash_nonempty: "split_slash s \<noteq> []"
  by (induction s) (auto split: list.splits)

lemma split_slash_no_slash: "w \<in> set (split_slash s) \<Longrightarrow> CHR ''/'' \<notin> set w"
  by (induction s arbitrary: w) (auto split: list.splits if_splits)

lemma split_slash_plain: "CHR ''/'' \<notin> set w \<Longrightarrow> split_slash w = [w]"
  by (induction w) auto

lemma split_slash_append:
  "CHR ''/'' \<notin> set w \<Longrightarrow> split_slash (w @ CHR ''/'' # s) = w # split_slash s"
  by (induction w) auto

lemma split_slash_last:
  "CHR ''/'' \<notin> set b \<Longrightarrow>
   split_slash (a @ b) = butlast (split_slash a) @ [last (split_slash a) @ b]"
proof (induction a)
  case Nil
  then show ?case by (simp add: split_slash_plain)
next
  case (Cons c a)
  then show ?case
    using split_slash_nonempty [of a] split_slash_nonempty [of "a @ b"]
    by (auto split: list.splits simp: butlast_append)
qed

lemma wf_components: "wf_parts (components s)"
  by (auto simp: wf_parts_def components_def dest: split_slash_no_slash)

lemma components_join: "wf_parts ws \<Longrightarrow> components (join_slash ws) = ws"
proof (induction ws rule: join_slash.induct)
  case 1
  then show ?case by (simp add: components_def)
next
  case (2 w)
  then show ?case by (simp add: components_def wf_parts_def split_slash_plain)
next
  case (3 w v vs)
  then show ?case by (simp add: components_def wf_parts_def split_slash_append)
qed

lemma components_slash: "components (CHR ''/'' # s) = components s"
  by (simp add: components_def)

lemma join_slash_Cons: "\<exists>rest. join_slash (w # ws) = w @ rest"
  by (cases ws) auto

lemma join_slash_relative:
  assumes "wf_parts ws" "ws \<noteq> []"
  shows "\<not> is_absolute (join_slash ws)"
proof -
  obtain w vs where ws: "ws = w # vs" using assms(2) by (cases ws) auto
  obtain c w' where w: "w = c # w'" "c \<noteq> CHR ''/''"
    using assms(1) ws by (cases w) (auto simp: wf_parts_def)
  obtain rest where "join_slash ws = w @ rest" using join_slash_Cons ws by blast
  then show ?thesis using w by (simp add: is_absolute_def)
qed

lemma anchor_of_relative: "\<not> is_absolute s \<Longrightarrow> anchor_of s = []"
  by (cases s) (auto simp: anchor_of_def is_absolute_def)

lemma anchor_of_slash: "\<not> is_absolute s \<Longrightarrow> anchor_of (CHR ''/'' # s) = ''/''"
  by (cases s) (auto simp: anchor_of_def is_absolute_def)

lemma anchor_of_slashes:
  "\<not> is_absolute s \<Longrightarrow> anchor_of (CHR ''/'' # CHR ''/'' # s) = ''//''"
  by (cases s) (auto simp: anchor_of_def is_absolute_def)

lemma anchor_of_cases: "anchor_of s = [] \<or> anchor_of s = ''/'' \<or> anchor_of s = ''//''"
  by (simp add: anchor_of_def Let_def)

lemma join_slash_not_absolute: "wf_parts ws \<Longrightarrow> \<not> is_absolute (join_slash ws)"
  using join_slash_relative [of ws] by (cases "ws = []") (auto simp: is_absolute_def)

text \<open>\<^verbatim>\<open>Path(str(p))\<close> is \<open>p\<close> again.\<close>

lemma parse_str_path:
  assumes "wf_path p"
  shows "parse_path (str_path p) = p"
proof (cases p)
  case (Path a ws)
  have wf: "wf_parts ws" and an: "a = [] \<or> a = ''/'' \<or> a = ''//''"
    using assms Path by (simp_all add: wf_path_def)
  have rel: "\<not> is_absolute (join_slash ws)" by (rule join_slash_not_absolute [OF wf])
  from an show ?thesis
  proof (elim disjE)
    assume a: "a = []"
    show ?thesis
    proof (cases "ws = []")
      case True
      then show ?thesis
        using Path a by (simp add: parse_path_def str_path_def components_def anchor_of_def)
    next
      case False
      then show ?thesis
        using Path a wf rel
        by (simp add: parse_path_def str_path_def components_join anchor_of_relative)
    qed
  next
    assume a: "a = ''/''"
    then show ?thesis
      using Path wf anchor_of_slash [OF rel]
      by (simp add: parse_path_def str_path_def components_slash components_join)
  next
    assume a: "a = ''//''"
    then show ?thesis
      using Path wf anchor_of_slashes [OF rel]
      by (simp add: parse_path_def str_path_def components_slash components_join)
  qed
qed

lemma wf_parts_append: "wf_parts (xs @ ys) = (wf_parts xs \<and> wf_parts ys)"
  by (auto simp: wf_parts_def)

lemma wf_parse_path: "wf_path (parse_path s)"
  using anchor_of_cases [of s] by (simp add: parse_path_def wf_path_def wf_components)

lemma wf_joinpath: "wf_path p \<Longrightarrow> wf_path (joinpath p s)"
  using wf_parse_path [of s]
  by (auto simp: joinpath_def wf_path_def wf_parts_append wf_components)

section \<open>Properties of the zone store\<close>

lemma zones_lookup:
  "map_of (zones (storage_of bp)) z =
     (if z = ''raw'' then Some (joinpath (parse_path bp) ''raw'')
      else if z = ''bronze'' then Some (joinpath (parse_path bp) ''bronze'')
      else if z = ''silver'' then Some (joinpath (parse_path bp) ''silver'')
      else if z = ''gold'' then Some (joinpath (parse_path bp) ''gold'')
      else None)"
  by (simp add: storage_of_def Let_def)

lemma wf_zone_path:
  assumes "map_of (zones (storage_of bp)) z = Some zp"
  shows "wf_path zp"
proof -
  have "zp = joinpath (parse_path bp) z"
    using assms by (auto simp: zones_lookup split: if_splits)
  then show ?thesis using wf_joinpath [OF wf_parse_path] by simp
qed

lemma digit_is_digit: "digit d \<in> set ''0123456789''"
  unfolding digit_def by (rule nth_mem) simp

lemma dec_digits: "set (dec n) \<subseteq> set ''0123456789''"
proof (induction n rule: dec.induct)
  case (1 n)
  show ?case
  proof (cases "n < 10")
    case True
    have "dec n = [digit n]" using True by (subst dec.simps) simp
    then show ?thesis using digit_is_digit [of n] by simp
  next
    case False
    have "dec n = dec (n div 10) @ [digit n]" using False by (subst dec.simps) simp
    then show ?thesis using 1 [OF False] digit_is_digit [of n] by simp
  qed
qed

lemma zpad_digits:
  assumes "c \<in> set (zpad w n)"
  shows "c \<in> set ''0123456789''"
proof -
  have "c \<in> set (replicate (w - length (dec n)) (CHR ''0'')) \<or> c \<in> set (dec n)"
    using assms by (simp add: zpad_def)
  then show ?thesis
  proof
    assume "c \<in> set (replicate (w - length (dec n)) (CHR ''0''))"
    then have "c = CHR ''0''" by (simp split: if_splits)
    then show ?thesis by simp
  next
    assume "c \<in> set (dec n)"
    then show ?thesis by (rule subsetD [OF dec_digits])
  qed
qed

lemma zpad_other: "c \<notin> set ''0123456789'' \<Longrightarrow> c \<notin> set (zpad w n)"
  using zpad_digits by blast

lemma stamp_other: "c \<notin> set ''0123456789_'' \<Longrightarrow> c \<notin> set (strftime_stamp t)"
  by (simp add: strftime_stamp_def zpad_other)

lemma stamp_no_slash: "CHR ''/'' \<notin> set (strftime_stamp t)"
  by (rule stamp_other) simp

lemma components_tail:
  assumes "CHR ''/'' \<notin> set b" "2 \<le> length b"
  shows "components (a @ b) =
           filter (\<lambda>w. w \<noteq> [] \<and> w \<noteq> ''.'') (butlast (split_slash a)) @
           [last (split_slash a) @ b]"
proof -
  have "last (split_slash a) @ b \<noteq> []" using assms(2) by auto
  moreover have "last (split_slash a) @ b \<noteq> ''.''"
  proof
    assume "last (split_slash a) @ b = ''.''"
    then have "length (last (split_slash a) @ b) = 1" by simp
    then show False using assms(2) by simp
  qed
  ultimately show ?thesis
    by (simp add: components_def split_slash_last [OF assms(1)])
qed

lemma path_name_joinpath:
  assumes "CHR ''/'' \<notin> set b" "2 \<le> length b"
  shows "path_name (joinpath p (a @ b)) = last (split_slash a) @ b"
  by (simp add: joinpath_def parse_path_def path_name_def components_tail [OF assms])

lemma rfind_last: "c \<notin> set b \<Longrightarrow> rfind c (a @ c # b) = int (length a)"
proof -
  assume nb: "c \<notin> set b"
  have "takeWhile (\<lambda>x. x \<noteq> c) (rev b @ c # rev a) = rev b"
    using nb by (auto simp: takeWhile_tail)
  then show ?thesis by (simp add: rfind_def)
qed

lemma suffix_of_name:
  assumes "path_name p = a @ CHR ''.'' # b" "a \<noteq> []" "b \<noteq> []" "CHR ''.'' \<notin> set b"
  shows "path_suffix p = CHR ''.'' # b"
proof -
  have "rfind (CHR ''.'') (path_name p) = int (length a)"
    using assms(1,4) by (simp add: rfind_last)
  moreover have "0 < length a" "0 < length b" using assms(2,3) by auto
  ultimately show ?thesis using assms(1) by (simp add: path_suffix_def Let_def)
qed

lemma suffix_file_name:
  assumes "CHR ''/'' \<notin> set fmt" "CHR ''.'' \<notin> set fmt" "fmt \<noteq> []"
  shows "path_suffix (joinpath p (file_name dn ck fmt)) = ''.'' @ fmt"
proof -
  define b where "b = ''_'' @ strftime_stamp (now_store ck) @ ''.'' @ fmt"
  define a where "a = last (split_slash dn) @ ''_'' @ strftime_stamp (now_store ck)"
  have nb: "CHR ''/'' \<notin> set b"
    using assms(1) stamp_no_slash [of "now_store ck"] by (simp add: b_def)
  have lb: "2 \<le> length b" using assms(3) by (cases fmt) (auto simp: b_def)
  have fn: "file_name dn ck fmt = dn @ b" by (simp add: file_name_def b_def)
  have "path_name (joinpath p (dn @ b)) = last (split_slash dn) @ b"
    by (rule path_name_joinpath [OF nb lb])
  then have nm: "path_name (joinpath p (file_name dn ck fmt)) = a @ CHR ''.'' # fmt"
    by (simp add: fn a_def b_def)
  have ane: "a \<noteq> []" by (simp add: a_def)
  show ?thesis using suffix_of_name [OF nm ane assms(3) assms(2)] by simp
qed



lemma write_table_ok:
  assumes "write_table enc fs ck d p = (Inr fp, fs1)"
  shows "\<exists>b. enc d = Inr b \<and> write_file fs (file_ctime ck) (file_mtime ck) p b = Inr fs1 \<and>
           fp = str_path p"
  using assms by (auto simp: write_table_def split: sum.splits if_splits)

lemma store_data_ok:
  assumes "store_data pf st fs ck d z dn fmt = (Inr fp, fs1)"
  shows "\<exists>zp fs' b. map_of (zones st) z = Some zp \<and>
           mkdir_exist_ok fs (joinpath zp dn) = Inr fs' \<and> supported fmt \<and>
           writer_for pf fmt d = Inr b \<and>
           write_file fs' (file_ctime ck) (file_mtime ck) (target_file zp dn ck fmt) b = Inr fs1 \<and>
           fp = str_path (target_file zp dn ck fmt)"
proof -
  obtain zp where zp: "map_of (zones st) z = Some zp"
    using assms by (auto simp: store_data_def split: option.splits)
  obtain fs' where mk: "mkdir_exist_ok fs (joinpath zp dn) = Inr fs'"
    using assms zp by (auto simp: store_data_def Let_def split: sum.splits)
  have sup: "supported fmt"
    using assms zp mk by (auto simp: store_data_def Let_def supported_def split: if_splits)
  have "write_table (writer_for pf fmt) fs' ck d (target_file zp dn ck fmt) = (Inr fp, fs1)"
    using assms zp mk sup
    by (auto simp: store_data_def Let_def supported_def writer_for_def target_file_def
        file_name_def split: if_splits)
  from write_table_ok [OF this] show ?thesis using zp mk sup by blast
qed

lemma supported_chars:
  assumes "supported fmt"
  shows "CHR ''/'' \<notin> set fmt" and "CHR ''.'' \<notin> set fmt" and "fmt \<noteq> []"
    and "CHR 0x00 \<notin> set fmt"
  using assms by (auto simp: supported_def)


lemma stored_path_parses:
  assumes "map_of (zones (storage_of bp)) z = Some zp"
  shows "parse_path (str_path (target_file zp dn ck fmt)) = target_file zp dn ck fmt"
proof -
  have "wf_path (target_file zp dn ck fmt)"
    unfolding target_file_def by (intro wf_joinpath wf_zone_path [OF assms])
  then show ?thesis by (rule parse_str_path)
qed

lemma get_file_info_some:
  assumes "get_file_info pf fs s = Inr (Some info)"
  shows "is_file fs (parse_path s)"
proof -
  have ex: "path_exists fs (parse_path s)"
    using assms by (auto simp: get_file_info_def Let_def split: if_splits)
  have "\<exists>bytes. read_file fs (parse_path s) = Inr bytes"
    using assms ex
    by (auto simp: get_file_info_def Let_def open_read_def split: if_splits sum.splits)
  then have "\<not> is_dir fs (parse_path s)"
    by (auto simp: read_file_def split: if_splits)
  then show ?thesis using ex by (simp add: path_exists_def)
qed

lemma fresh_fs_eval:
  "fresh_fs = \<lparr>dirs = [Path [] [''data_lake''], Path [] [''data_lake'', ''raw''],
      Path [] [''data_lake'', ''bronze''], Path [] [''data_lake'', ''silver''],
      Path [] [''data_lake'', ''gold'']], files = []\<rparr>"
  by code_simp

text \<open>
  Claim C6. A zone argument that is none of \<^verbatim>\<open>raw\<close>, \<^verbatim>\<open>bronze\<close>, \<^verbatim>\<open>silver\<close>,
  \<^verbatim>\<open>gold\<close> makes \<^verbatim>\<open>store_data\<close> raise \<^verbatim>\<open>ValueError("Invalid zone: ...")\<close>,
  whatever the data, the dataset name and the format are, and the filesystem it returns
  is the one it was given: no file is written and no directory is made.
\<close>

theorem store_data_invalid_zone:
  assumes "z \<notin> {''raw'', ''bronze'', ''silver'', ''gold''}"
  shows "store_data pf (storage_of bp) fs ck d z dn fmt
           = (Inl (ValueError (''Invalid zone: '' @ z)), fs)"
proof -
  have "map_of (zones (storage_of bp)) z = None"
    using assms by (simp add: zones_lookup)
  then show ?thesis by (simp add: store_data_def)
qed

theorem store_data_invalid_zone_witness:
  "''platinum'' \<notin> {''raw'', ''bronze'', ''silver'', ''gold''} \<and>
   store_data plain_platform lake fresh_fs sample_clock ''abc'' ''platinum'' ''t1'' ''csv''
     = (Inl (ValueError ''Invalid zone: platinum''), fresh_fs)"
proof -
  have h: "''platinum'' \<notin> {''raw'', ''bronze'', ''silver'', ''gold''}" by simp
  show ?thesis
    using h store_data_invalid_zone [OF h, of plain_platform "''data_lake''" fresh_fs
        sample_clock "''abc''" "''t1''" "''csv''"]
    by (simp add: lake_def)
qed




section \<open>Properties of the catalog\<close>

lemma digit_val_digit: "digit_val (digit d) = Some (d mod 10)"
proof -
  have "d mod 10 = 0 \<or> d mod 10 = 1 \<or> d mod 10 = 2 \<or> d mod 10 = 3 \<or> d mod 10 = 4 \<or>
        d mod 10 = 5 \<or> d mod 10 = 6 \<or> d mod 10 = 7 \<or> d mod 10 = 8 \<or> d mod 10 = 9"
    by arith
  then show ?thesis unfolding digit_def by (elim disjE) (simp_all add: digit_val_def)
qed

lemma digits_val_append:
  "digits_val acc (xs @ ys) =
     (case digits_val acc xs of None \<Rightarrow> None | Some a \<Rightarrow> digits_val a ys)"
  by (induction xs arbitrary: acc) (auto split: option.splits)

lemma digits_val_zeros: "digits_val acc (replicate k (CHR ''0'')) = Some (acc * 10 ^ k)"
  by (induction k arbitrary: acc) (auto simp: digit_val_def)

lemma digits_val_dec: "digits_val acc (dec n) = Some (acc * 10 ^ length (dec n) + n)"
proof (induction n arbitrary: acc rule: dec.induct)
  case (1 n)
  show ?case
  proof (cases "n < 10")
    case True
    have "dec n = [digit n]" using True by (subst dec.simps) simp
    then show ?thesis using True by (simp add: digit_val_digit)
  next
    case False
    have d: "dec n = dec (n div 10) @ [digit n]" using False by (subst dec.simps) simp
    have "10 * (n div 10) + n mod 10 = n" by simp
    then show ?thesis
      using 1 [OF False] by (simp add: d digits_val_append digit_val_digit algebra_simps)
  qed
qed

lemma length_dec: "n < 10 ^ w \<Longrightarrow> 0 < w \<Longrightarrow> length (dec n) \<le> w"
proof (induction n arbitrary: w rule: dec.induct)
  case (1 n)
  show ?case
  proof (cases "n < 10")
    case True
    have "dec n = [digit n]" using True by (subst dec.simps) simp
    then show ?thesis using 1(3) by simp
  next
    case False
    have d: "dec n = dec (n div 10) @ [digit n]" using False by (subst dec.simps) simp
    obtain v where w: "w = Suc v" using 1(3) by (cases w) auto
    have "v \<noteq> 0" using False 1(2) w by (cases v) auto
    moreover have "n div 10 < 10 ^ v" using 1(2) w by (simp add: less_mult_imp_div_less mult.commute)
    ultimately have "length (dec (n div 10)) \<le> v" using 1(1) [OF False, of v] by simp
    then show ?thesis using d w by simp
  qed
qed

lemma zpad_length: "n < 10 ^ w \<Longrightarrow> 0 < w \<Longrightarrow> length (zpad w n) = w"
  using length_dec [of n w] by (simp add: zpad_def)

lemma zpad_value: "digits_val 0 (zpad w n) = Some n"
  by (simp add: zpad_def digits_val_append digits_val_zeros digits_val_dec)

lemma field_at:
  assumes "length a = k" "length b = n"
  shows "field k n (a @ b @ c) = digits_val 0 b"
  using assms by (simp add: field_def)

lemma fromisoformat_isoformat:
  assumes "valid_datetime t"
  shows "fromisoformat (isoformat t) = Inr t"
proof -
  define Y where "Y = zpad 4 (year t)"
  define Mo where "Mo = zpad 2 (month t)"
  define D where "D = zpad 2 (day t)"
  define H where "H = zpad 2 (hour t)"
  define Mi where "Mi = zpad 2 (minute t)"
  define S where "S = zpad 2 (second t)"
  define U where "U = zpad 6 (microsecond t)"
  have v: "year t < 10 ^ 4" "month t < 10 ^ 2" "day t < 10 ^ 2" "hour t < 10 ^ 2"
    "minute t < 10 ^ 2" "second t < 10 ^ 2" "microsecond t < 10 ^ 6"
    using assms by (auto simp: valid_datetime_def days_in_month_def split: if_splits)
  have len: "length Y = 4" "length Mo = 2" "length D = 2" "length H = 2" "length Mi = 2"
    "length S = 2" "length U = 6"
    using v by (simp_all add: Y_def Mo_def D_def H_def Mi_def S_def U_def zpad_length)
  have val: "digits_val 0 Y = Some (year t)" "digits_val 0 Mo = Some (month t)"
    "digits_val 0 D = Some (day t)" "digits_val 0 H = Some (hour t)"
    "digits_val 0 Mi = Some (minute t)" "digits_val 0 S = Some (second t)"
    "digits_val 0 U = Some (microsecond t)"
    by (simp_all add: Y_def Mo_def D_def H_def Mi_def S_def U_def zpad_value)
  define F where "F = (if microsecond t = 0 then [] else ''.'' @ U)"
  have iso: "isoformat t = Y @ ''-'' @ Mo @ ''-'' @ D @ ''T'' @ H @ '':'' @ Mi @ '':'' @ S @ F"
    by (simp add: isoformat_def isoformat_sep_def Y_def Mo_def D_def H_def Mi_def S_def U_def
        F_def)
  define s where "s = isoformat t"
  have ls: "length s = 19 + length F" using len by (simp add: s_def iso)
  have f0: "field 0 4 s = Some (year t)"
    using field_at [of "[]" 0 Y 4] len val by (simp add: s_def iso)
  have f5: "field 5 2 s = Some (month t)"
    using field_at [of "Y @ ''-''" 5 Mo 2] len val by (simp add: s_def iso)
  have f8: "field 8 2 s = Some (day t)"
    using field_at [of "Y @ ''-'' @ Mo @ ''-''" 8 D 2] len val by (simp add: s_def iso)
  have f11: "field 11 2 s = Some (hour t)"
    using field_at [of "Y @ ''-'' @ Mo @ ''-'' @ D @ ''T''" 11 H 2] len val
    by (simp add: s_def iso)
  have f14: "field 14 2 s = Some (minute t)"
    using field_at [of "Y @ ''-'' @ Mo @ ''-'' @ D @ ''T'' @ H @ '':''" 14 Mi 2] len val
    by (simp add: s_def iso)
  have f17: "field 17 2 s = Some (second t)"
    using field_at [of "Y @ ''-'' @ Mo @ ''-'' @ D @ ''T'' @ H @ '':'' @ Mi @ '':''" 17 S 2]
      len val by (simp add: s_def iso)
  have f20: "field 20 6 s = Some (microsecond t)"
  proof (cases "microsecond t = 0")
    case True
    then have "drop 20 s = []" using ls by (simp add: F_def)
    then show ?thesis using True by (simp add: field_def)
  next
    case False
    then have "s = (Y @ ''-'' @ Mo @ ''-'' @ D @ ''T'' @ H @ '':'' @ Mi @ '':'' @ S @ ''.'') @ U @ []"
      by (simp add: s_def iso F_def)
    then show ?thesis
      using field_at [of "Y @ ''-'' @ Mo @ ''-'' @ D @ ''T'' @ H @ '':'' @ Mi @ '':'' @ S @ ''.''"
          20 U 6 "[]"] len val by simp
  qed
  have seps: "s ! 4 = CHR ''-''" "s ! 7 = CHR ''-''" "s ! 13 = CHR '':''" "s ! 16 = CHR '':''"
    using len by (simp_all add: s_def iso nth_append)
  have lens: "length s = 19 \<or> length s = 26" using ls len by (simp add: F_def)
  have dot: "length s = 26 \<Longrightarrow> s ! 19 = CHR ''.''"
    using ls len by (auto simp: s_def iso F_def nth_append split: if_splits)
  have rec: "\<lparr>year = year t, month = month t, day = day t, hour = hour t, minute = minute t,
       second = second t, microsecond = microsecond t\<rparr> = t" by simp
  have "fromisoformat s = Inr t"
    using lens seps dot f0 f5 f8 f11 f14 f17 f20 assms
    by (auto simp: fromisoformat_def Let_def rec)
  then show ?thesis by (simp add: s_def)
qed

lemma find_absent:
  "aid \<notin> col_asset_id ` set rows \<Longrightarrow> find (\<lambda>r. col_asset_id r = aid) rows = None"
  by (induction rows) auto

lemma get_asset_absent:
  "aid \<notin> col_asset_id ` set (data_assets cat) \<Longrightarrow> get_asset cat aid = Inr None"
  by (simp add: get_asset_def find_absent)

text \<open>
  Claim C7. On a database that can be written, \<^verbatim>\<open>add_lineage\<close> returns nothing and
  leaves the lineage table with exactly one more row, at its end: the edge from the
  source to the target with the label and the ISO text of the current time. Neither
  identifier is looked up: the asset table is not read and not changed, and the edge is
  inserted for identifiers no asset has.
\<close>

theorem add_lineage_appends_edge:
  assumes "db_writable cat"
  shows "\<exists>cat' e. add_lineage cat now s t l = (Inr (), cat') \<and>
           lineage cat' = lineage cat @ [e] \<and>
           source_asset_id e = s \<and> target_asset_id e = t \<and> transformation e = l \<and>
           lin_created_at e = isoformat now \<and>
           data_assets cat' = data_assets cat"
  using assms by (simp add: add_lineage_def)

theorem add_lineage_appends_edge_witness:
  "db_writable empty_catalog \<and>
   get_asset empty_catalog ''s1'' = Inr None \<and> get_asset empty_catalog ''t1'' = Inr None \<and>
   (\<exists>cat' e. add_lineage empty_catalog sample_time ''s1'' ''t1'' ''clean'' = (Inr (), cat') \<and>
      lineage cat' = lineage empty_catalog @ [e] \<and>
      source_asset_id e = ''s1'' \<and> target_asset_id e = ''t1'' \<and>
      transformation e = ''clean'' \<and> lin_created_at e = isoformat sample_time \<and>
      data_assets cat' = data_assets empty_catalog)"
proof -
  have h: "db_writable empty_catalog" by (simp add: empty_catalog_def)
  have g: "get_asset empty_catalog ''s1'' = Inr None \<and> get_asset empty_catalog ''t1'' = Inr None"
    by (simp add: get_asset_def empty_catalog_def)
  show ?thesis
    using h g add_lineage_appends_edge [OF h, of sample_time "''s1''" "''t1''" "''clean''"]
    by simp
qed

section \<open>Properties of the manager\<close>

lemma register_asset_failed:
  "fst (register_asset cat a) = False \<Longrightarrow> register_asset cat a = (False, cat)"
  by (auto simp: register_asset_def split: if_splits)

lemma register_asset_done:
  "fst (register_asset cat a) = True \<Longrightarrow>
   register_asset cat a =
     (True, cat\<lparr>data_assets :=
        filter (\<lambda>r. col_asset_id r \<noteq> asset_id a) (data_assets cat) @ [asset_to_row a]\<rparr>)"
  by (auto simp: register_asset_def split: if_splits)

lemma ingest_data_unfold:
  assumes "store_data pf st fs ck d z nm ''parquet'' = (Inr fp, fs1)"
  shows "ingest_data pf st fs cat ck d nm own descr tgs z =
           (fst (ingest_stored pf (meanwhile ck fs1) cat ck d nm own descr tgs fp),
            meanwhile ck fs1,
            snd (ingest_stored pf (meanwhile ck fs1) cat ck d nm own descr tgs fp))"
  using assms by (simp add: ingest_data_def Let_def split: prod.splits)

lemma ingest_stored_unfold:
  assumes "get_file_info pf fs1 fp = Inr (Some info)"
  shows "ingest_stored pf fs1 cat ck d nm own descr tgs fp =
           (Inr (new_asset_id pf ck nm),
            snd (register_asset cat (build_asset pf ck d nm own descr tgs fp info)))"
  using assms by (simp add: ingest_stored_def split: prod.splits)

lemma ingest_stored_no_info:
  assumes "\<forall>info. get_file_info pf fs1 fp \<noteq> Inr (Some info)"
  shows "\<exists>e. ingest_stored pf fs1 cat ck d nm own descr tgs fp = (Inl e, cat)"
  using assms by (auto simp: ingest_stored_def split: sum.splits option.splits)

lemma row_to_asset_fields:
  assumes "row_to_asset r = Inr a"
  shows "asset_id a = col_asset_id r" and "path a = col_path r" and "format a = col_format r"
    and "size_bytes a = col_size_bytes r"
  using assms by (auto simp: row_to_asset_def split: sum.splits)

lemma find_replaced:
  "col_asset_id r0 = aid \<Longrightarrow>
   find (\<lambda>r. col_asset_id r = aid) (filter (\<lambda>r. col_asset_id r \<noteq> aid) rows @ [r0]) = Some r0"
  by (induction rows) auto

lemma get_asset_registered:
  assumes "fst (register_asset cat a) = True"
  shows "get_asset (snd (register_asset cat a)) (asset_id a) =
           (case row_to_asset (asset_to_row a) of Inl e \<Rightarrow> Inl e | Inr x \<Rightarrow> Inr (Some x))"
proof -
  have "col_asset_id (asset_to_row a) = asset_id a" by (simp add: asset_to_row_def)
  then show ?thesis
    using register_asset_done [OF assms] by (simp add: get_asset_def find_replaced)
qed

lemma join_slash_suffix: "ws \<noteq> [] \<Longrightarrow> suffix (last ws) (join_slash ws)"
  by (induction ws rule: join_slash.induct) (auto simp: suffix_def)

lemma str_path_suffix: "parts p \<noteq> [] \<Longrightarrow> suffix (path_name p) (str_path p)"
  using join_slash_suffix [of "parts p"]
  by (auto simp: str_path_def path_name_def suffix_def)

lemma stored_path_shape:
  assumes "store_data pf (storage_of bp) fs ck d z dn fmt = (Inr fp, fs1)"
  shows "path_suffix (parse_path fp) = ''.'' @ fmt" and "suffix (''.'' @ fmt) fp"
proof -
  obtain zp where zp: "map_of (zones (storage_of bp)) z = Some zp"
    and sup: "supported fmt"
    and fp: "fp = str_path (target_file zp dn ck fmt)"
    using store_data_ok [OF assms] by blast
  define t where "t = target_file zp dn ck fmt"
  have pp: "parse_path fp = t" unfolding fp t_def by (rule stored_path_parses [OF zp])
  show "path_suffix (parse_path fp) = ''.'' @ fmt"
    unfolding pp t_def target_file_def
    by (rule suffix_file_name [OF supported_chars(1,2,3) [OF sup]])
  define b where "b = ''_'' @ strftime_stamp (now_store ck) @ ''.'' @ fmt"
  have nb: "CHR ''/'' \<notin> set b"
    using supported_chars(1) [OF sup] stamp_no_slash [of "now_store ck"]
    by (simp add: b_def)
  have lb: "2 \<le> length b" by (simp add: b_def)
  have fn: "file_name dn ck fmt = dn @ b" by (simp add: file_name_def b_def)
  have nm: "path_name t = last (split_slash dn) @ b"
    unfolding t_def target_file_def fn by (rule path_name_joinpath [OF nb lb])
  have "components (dn @ b) \<noteq> []" by (simp add: components_tail [OF nb lb])
  then have "parts t \<noteq> []"
    by (simp add: t_def target_file_def fn joinpath_def [of "joinpath zp dn"] parse_path_def)
  then have "suffix (path_name t) fp" using fp str_path_suffix by (simp add: t_def)
  moreover have "suffix (''.'' @ fmt) (path_name t)"
    by (simp add: nm b_def suffix_def)
  ultimately show "suffix (''.'' @ fmt) fp" using suffix_order.trans by blast
qed

lemma ingest_data_ok:
  assumes "ingest_data pf st fs cat ck d nm own descr tgs z = (Inr aid, fs1, cat1)"
  shows "\<exists>fp fsm info. store_data pf st fs ck d z nm ''parquet'' = (Inr fp, fsm) \<and>
           fs1 = meanwhile ck fsm \<and>
           get_file_info pf fs1 fp = Inr (Some info) \<and> aid = new_asset_id pf ck nm \<and>
           cat1 = snd (register_asset cat (build_asset pf ck d nm own descr tgs fp info))"
proof -
  obtain fp fsm where st: "store_data pf st fs ck d z nm ''parquet'' = (Inr fp, fsm)"
    using assms by (auto simp: ingest_data_def Let_def split: prod.splits sum.splits)
  have fs1: "fs1 = meanwhile ck fsm"
    using assms by (simp add: ingest_data_unfold [OF st])
  have ist: "ingest_stored pf fs1 cat ck d nm own descr tgs fp = (Inr aid, cat1)"
    using assms by (auto simp: ingest_data_unfold [OF st] prod_eq_iff)
  from ist obtain info where fi: "get_file_info pf fs1 fp = Inr (Some info)"
    by (auto simp: ingest_stored_def split: sum.splits option.splits)
  show ?thesis using st fs1 fi ist by (auto simp: ingest_stored_unfold)
qed

lemma ingested_asset:
  assumes "ingest_data pf st fs cat ck d nm own descr tgs z = (Inr aid, fs1, cat1)"
    and "aid \<notin> col_asset_id ` set (data_assets cat)"
    and "get_asset cat1 aid = Inr (Some a)"
  shows "\<exists>fp fsm info. store_data pf st fs ck d z nm ''parquet'' = (Inr fp, fsm) \<and>
           data_assets cat1 = filter (\<lambda>r. col_asset_id r \<noteq> aid) (data_assets cat) @
             [asset_to_row (build_asset pf ck d nm own descr tgs fp info)] \<and>
           row_to_asset (asset_to_row (build_asset pf ck d nm own descr tgs fp info)) = Inr a"
proof -
  obtain fp fsm info where st: "store_data pf st fs ck d z nm ''parquet'' = (Inr fp, fsm)"
    and aid: "aid = new_asset_id pf ck nm"
    and c1: "cat1 = snd (register_asset cat (build_asset pf ck d nm own descr tgs fp info))"
    using ingest_data_ok [OF assms(1)] by blast
  define x where "x = build_asset pf ck d nm own descr tgs fp info"
  have ax: "asset_id x = aid" by (simp add: x_def build_asset_def aid)
  have ok: "fst (register_asset cat x) = True"
  proof (rule ccontr)
    assume "fst (register_asset cat x) \<noteq> True"
    then have "cat1 = cat" using register_asset_failed [of cat x] c1 by (simp add: x_def)
    then show False using assms(2,3) get_asset_absent [of aid cat] by simp
  qed
  have "get_asset cat1 aid =
      (case row_to_asset (asset_to_row x) of Inl e \<Rightarrow> Inl e | Inr y \<Rightarrow> Inr (Some y))"
    using get_asset_registered [OF ok] c1 ax by (simp add: x_def)
  then have r: "row_to_asset (asset_to_row x) = Inr a"
    using assms(3) by (auto split: sum.splits)
  have "data_assets cat1 =
      filter (\<lambda>r. col_asset_id r \<noteq> aid) (data_assets cat) @ [asset_to_row x]"
    using register_asset_done [OF ok] c1 ax by (simp add: x_def)
  then show ?thesis using st r by (auto simp: x_def)
qed

lemma get_asset_same_rows:
  "data_assets c2 = data_assets c1 \<Longrightarrow> get_asset c2 aid = get_asset c1 aid"
  by (simp add: get_asset_def)

lemma add_lineage_assets:
  "add_lineage cat now s t l = (r, cat') \<Longrightarrow> data_assets cat' = data_assets cat"
  by (auto simp: add_lineage_def split: if_splits)

lemma transform_data_ok:
  assumes "transform_data pf st fs cat ck sid f tn tz = (Inr tid, fs2, cat2)"
  shows "\<exists>src d' cat1. get_asset cat sid = Inr (Some src) \<and>
           ingest_data pf st fs cat ck d' tn (owner src) (''Transformed from '' @ name src)
             (Some (tags src @ [''transformed''])) tz = (Inr tid, fs2, cat1) \<and>
           data_assets cat2 = data_assets cat1"
proof -
  obtain src where src: "get_asset cat sid = Inr (Some src)"
    using assms by (auto simp: transform_data_def split: sum.splits option.splits)
  obtain sd where sd: "load_data pf fs (path src) = Inr sd"
    using assms src by (auto simp: transform_data_def split: sum.splits)
  obtain d' where d': "call f sd = Inr d'"
    using assms src sd by (auto simp: transform_data_def split: sum.splits)
  define res where "res = ingest_data pf st fs cat ck d' tn (owner src)
      (''Transformed from '' @ name src) (Some (tags src @ [''transformed''])) tz"
  obtain r fs' cat1 where res3: "res = (r, fs', cat1)" by (cases res) auto
  have t: "transform_data pf st fs cat ck sid f tn tz =
      (case res of
         (Inl e, fs', cat') \<Rightarrow> (Inl e, fs', cat')
       | (Inr target_id, fs', cat') \<Rightarrow>
           (case add_lineage cat' (now_lineage ck) sid target_id
                   (case func_name f of Some n \<Rightarrow> n | None \<Rightarrow> ''custom_transform'') of
              (Inl e, cat'') \<Rightarrow> (Inl e, fs', cat'')
            | (Inr u, cat'') \<Rightarrow> (Inr target_id, fs', cat'')))"
    using src sd d' by (simp add: transform_data_def res_def)
  obtain t0 where r: "r = Inr t0"
    using assms t res3 by (cases r) auto
  define al where "al = add_lineage cat1 (now_lineage ck) sid t0
      (case func_name f of Some n \<Rightarrow> n | None \<Rightarrow> ''custom_transform'')"
  obtain ar cat'' where al2: "al = (ar, cat'')" by (cases al) auto
  have "tid = t0 \<and> fs2 = fs' \<and> cat2 = cat''"
    using assms t res3 r al2 by (cases ar) (auto simp: al_def)
  moreover have "data_assets cat'' = data_assets cat1"
    using al2 add_lineage_assets by (auto simp: al_def)
  ultimately show ?thesis using src res3 r by (auto simp: res_def)
qed

text \<open>
  Claim C3. When no row of the catalog has the identifier \<open>sid\<close>,
  \<^verbatim>\<open>transform_data\<close> raises \<^verbatim>\<open>ValueError("Source asset not found: ...")\<close> and the
  filesystem and the catalog it leaves are the ones it found: the lineage table has no
  new edge, the asset table no new record, and no file was written.
\<close>

theorem transform_data_source_not_found:
  assumes "sid \<notin> col_asset_id ` set (data_assets cat)"
  shows "transform_data pf st fs cat ck sid f tn tz
           = (Inl (ValueError (''Source asset not found: '' @ sid)), fs, cat)"
  using get_asset_absent [OF assms] by (simp add: transform_data_def)

theorem transform_data_source_not_found_witness:
  "''nope'' \<notin> col_asset_id ` set (data_assets empty_catalog) \<and>
   transform_data plain_platform lake fresh_fs empty_catalog sample_clock ''nope'' twice_func
       ''t1_copy'' ''silver''
     = (Inl (ValueError ''Source asset not found: nope''), fresh_fs, empty_catalog)"
proof -
  have h: "''nope'' \<notin> col_asset_id ` set (data_assets empty_catalog)"
    by (simp add: empty_catalog_def)
  show ?thesis
    using h transform_data_source_not_found [OF h, of plain_platform lake fresh_fs
        sample_clock twice_func "''t1_copy''" "''silver''"]
    by simp
qed

lemma get_asset_present:
  assumes "aid \<in> col_asset_id ` set (data_assets cat)"
  shows "get_asset cat aid \<noteq> Inr None"
proof -
  have "find (\<lambda>r. col_asset_id r = aid) (data_assets cat) \<noteq> None"
    using assms by (auto simp: find_None_iff)
  then show ?thesis by (auto simp: get_asset_def split: option.splits sum.splits)
qed

lemma quiet_clock: "meanwhile sample_clock fs = fs"
  by (simp add: sample_clock_def)

lemma stored_eval:
  "store_data plain_platform (storage_of ''data_lake'') fresh_fs sample_clock ''abc'' ''raw''
     ''t1'' ''parquet'' = (Inr stored_path, stored_fs)"
  by code_simp

lemma stored_again_eval:
  "store_data plain_platform (storage_of ''data_lake'') stored_fs sample_clock ''abc'' ''raw''
     ''t1'' ''parquet'' = (Inr stored_path, stored_fs)"
  by code_simp

lemma stored_vanish_eval:
  "store_data plain_platform (storage_of ''data_lake'') fresh_fs vanish_clock ''abc'' ''raw''
     ''t1'' ''parquet'' = (Inr stored_path, stored_fs)"
  by code_simp

lemma stored_info_eval:
  "get_file_info plain_platform stored_fs stored_path = Inr (Some stored_info)"
  by code_simp

lemma vanished_info_eval:
  "get_file_info plain_platform (meanwhile vanish_clock stored_fs) stored_path = Inr None"
  by code_simp

lemma first_ingest_eval:
  "ingest_data plain_platform (storage_of ''data_lake'') fresh_fs empty_catalog sample_clock
     ''abc'' ''t1'' ''me'' ''first'' (Some [''abc'']) ''raw''
   = (Inr (asset_id first_asset), stored_fs, first_catalog)"
  by (simp add: ingest_data_unfold [OF stored_eval] quiet_clock
      ingest_stored_unfold [OF stored_info_eval]
      first_catalog_def first_asset_def build_asset_def)

text \<open>
  Claim C4. \<^verbatim>\<open>ingest_data\<close> is a sequence without rollback. When
  \<^verbatim>\<open>store_data\<close> raises, \<^verbatim>\<open>ingest_data\<close> raises the same exception and the
  catalog is unchanged. When \<^verbatim>\<open>store_data\<close> has returned a path and
  \<^verbatim>\<open>get_file_info\<close> then gives no information for it (the empty dictionary, because
  the file is gone by then, or an exception), \<^verbatim>\<open>ingest_data\<close> raises and the catalog
  is unchanged. When the file was stored, its information was read and
  \<^verbatim>\<open>register_asset\<close> returns \<^verbatim>\<open>False\<close>, the catalog is unchanged and the file is
  still a regular file of the filesystem that \<^verbatim>\<open>ingest_data\<close> leaves: nothing removes
  it.
\<close>

theorem ingest_data_failure_modes:
  "(fst (store_data pf st fs0 ck0 d z0 nm ''parquet'') = Inl e \<longrightarrow>
      ingest_data pf st fs0 cat ck0 d nm own descr tgs z0
        = (Inl e, snd (store_data pf st fs0 ck0 d z0 nm ''parquet''), cat)) \<and>
   (store_data pf st fs ck2 d z nm ''parquet'' = (Inr fp, fs1) \<and>
    (\<forall>info. get_file_info pf (meanwhile ck2 fs1) fp \<noteq> Inr (Some info)) \<longrightarrow>
      (\<exists>e'. ingest_data pf st fs cat ck2 d nm own descr tgs z
               = (Inl e', meanwhile ck2 fs1, cat))) \<and>
   (store_data pf st fs ck d z nm ''parquet'' = (Inr fp3, fs3) \<and>
    get_file_info pf (meanwhile ck fs3) fp3 = Inr (Some info1) \<and>
    fst (register_asset cat (build_asset pf ck d nm own descr tgs fp3 info1)) = False \<longrightarrow>
      snd (ingest_data pf st fs cat ck d nm own descr tgs z) = (meanwhile ck fs3, cat) \<and>
      is_file (meanwhile ck fs3) (parse_path fp3))"
proof (intro conjI impI)
  assume "fst (store_data pf st fs0 ck0 d z0 nm ''parquet'') = Inl e"
  then show "ingest_data pf st fs0 cat ck0 d nm own descr tgs z0
        = (Inl e, snd (store_data pf st fs0 ck0 d z0 nm ''parquet''), cat)"
    by (cases "store_data pf st fs0 ck0 d z0 nm ''parquet''") (simp add: ingest_data_def)
next
  assume a: "store_data pf st fs ck2 d z nm ''parquet'' = (Inr fp, fs1) \<and>
    (\<forall>info. get_file_info pf (meanwhile ck2 fs1) fp \<noteq> Inr (Some info))"
  then have st: "store_data pf st fs ck2 d z nm ''parquet'' = (Inr fp, fs1)"
    and no: "\<forall>info. get_file_info pf (meanwhile ck2 fs1) fp \<noteq> Inr (Some info)"
    by simp_all
  obtain e' where
    "ingest_stored pf (meanwhile ck2 fs1) cat ck2 d nm own descr tgs fp = (Inl e', cat)"
    using ingest_stored_no_info [OF no] by blast
  then have "ingest_data pf st fs cat ck2 d nm own descr tgs z = (Inl e', meanwhile ck2 fs1, cat)"
    by (simp add: ingest_data_unfold [OF st])
  then show "\<exists>e'. ingest_data pf st fs cat ck2 d nm own descr tgs z
               = (Inl e', meanwhile ck2 fs1, cat)" by blast
next
  assume a: "store_data pf st fs ck d z nm ''parquet'' = (Inr fp3, fs3) \<and>
    get_file_info pf (meanwhile ck fs3) fp3 = Inr (Some info1) \<and>
    fst (register_asset cat (build_asset pf ck d nm own descr tgs fp3 info1)) = False"
  then have st: "store_data pf st fs ck d z nm ''parquet'' = (Inr fp3, fs3)"
    and fi: "get_file_info pf (meanwhile ck fs3) fp3 = Inr (Some info1)"
    and rg: "fst (register_asset cat (build_asset pf ck d nm own descr tgs fp3 info1)) = False"
    by simp_all
  show "snd (ingest_data pf st fs cat ck d nm own descr tgs z) = (meanwhile ck fs3, cat)"
    using register_asset_failed [OF rg]
    by (simp add: ingest_data_unfold [OF st] ingest_stored_unfold [OF fi])
  show "is_file (meanwhile ck fs3) (parse_path fp3)"
    by (rule get_file_info_some [OF fi])
qed

theorem ingest_data_failure_modes_witness:
  "fst (store_data plain_platform (storage_of ''data_lake'') fresh_fs sample_clock ''abc''
          ''platinum'' ''t1'' ''parquet'') = Inl (ValueError ''Invalid zone: platinum'') \<and>
   ingest_data plain_platform (storage_of ''data_lake'') fresh_fs readonly_catalog sample_clock
       ''abc'' ''t1'' ''me'' ''first'' None ''platinum''
     = (Inl (ValueError ''Invalid zone: platinum''), fresh_fs, readonly_catalog) \<and>
   store_data plain_platform (storage_of ''data_lake'') fresh_fs vanish_clock ''abc'' ''raw''
     ''t1'' ''parquet'' = (Inr stored_path, stored_fs) \<and>
   (\<forall>info. get_file_info plain_platform (meanwhile vanish_clock stored_fs) stored_path
            \<noteq> Inr (Some info)) \<and>
   (\<exists>e'. ingest_data plain_platform (storage_of ''data_lake'') fresh_fs readonly_catalog
           vanish_clock ''abc'' ''t1'' ''me'' ''first'' None ''raw''
         = (Inl e', meanwhile vanish_clock stored_fs, readonly_catalog)) \<and>
   store_data plain_platform (storage_of ''data_lake'') fresh_fs sample_clock ''abc'' ''raw''
     ''t1'' ''parquet'' = (Inr stored_path, stored_fs) \<and>
   get_file_info plain_platform stored_fs stored_path = Inr (Some stored_info) \<and>
   fst (register_asset readonly_catalog
          (build_asset plain_platform sample_clock ''abc'' ''t1'' ''me'' ''first'' None
             stored_path stored_info)) = False \<and>
   snd (ingest_data plain_platform (storage_of ''data_lake'') fresh_fs readonly_catalog
          sample_clock ''abc'' ''t1'' ''me'' ''first'' None ''raw'')
     = (stored_fs, readonly_catalog) \<and>
   is_file stored_fs (parse_path stored_path)"
proof -
  have a1: "store_data plain_platform (storage_of ''data_lake'') fresh_fs sample_clock ''abc''
      ''platinum'' ''t1'' ''parquet'' = (Inl (ValueError ''Invalid zone: platinum''), fresh_fs)"
    by code_simp
  have a2: "\<forall>info. get_file_info plain_platform (meanwhile vanish_clock stored_fs) stored_path
            \<noteq> Inr (Some info)"
    by (simp add: vanished_info_eval)
  have a3: "fst (register_asset readonly_catalog
          (build_asset plain_platform sample_clock ''abc'' ''t1'' ''me'' ''first'' None
             stored_path stored_info)) = False"
    by (simp add: register_asset_def readonly_catalog_def)
  note t = ingest_data_failure_modes [where pf = plain_platform
      and st = "storage_of ''data_lake''" and ?fs0.0 = fresh_fs and ?ck0.0 = sample_clock
      and d = "''abc''" and ?z0.0 = "''platinum''" and nm = "''t1''"
      and e = "ValueError ''Invalid zone: platinum''" and cat = readonly_catalog
      and own = "''me''" and descr = "''first''" and tgs = None
      and fs = fresh_fs and ?ck2.0 = vanish_clock and z = "''raw''" and fp = stored_path
      and ?fs1.0 = stored_fs and ck = sample_clock and ?fp3.0 = stored_path
      and ?fs3.0 = stored_fs and ?info1.0 = stored_info]
  show ?thesis
    using a1 a2 a3 stored_eval stored_vanish_eval stored_info_eval t
    by (simp add: quiet_clock)
qed

text \<open>
  Claim C9, as amended. When the file was stored, its information was read and
  \<^verbatim>\<open>register_asset\<close> returns \<^verbatim>\<open>False\<close> for the asset built from them,
  \<^verbatim>\<open>ingest_data\<close> still returns normally: its value is the identifier it computed
  from the name and the current time, no exception is raised, and the catalog is the
  one it was given, since the result of \<^verbatim>\<open>register_asset\<close> is never looked at. The
  returned identifier therefore has no row after the call if it had none before.

  As stated, the claim says the identifier has no row in any case. That fails when the
  catalog already holds a row with this identifier, which a second ingest of the same
  name at the same reading of the clock computes again.
\<close>

theorem ingest_data_ignores_registration_failure:
  assumes "store_data pf st fs ck d z nm ''parquet'' = (Inr fp, fs1)"
    and "get_file_info pf (meanwhile ck fs1) fp = Inr (Some info)"
    and "fst (register_asset cat (build_asset pf ck d nm own descr tgs fp info)) = False"
  shows "ingest_data pf st fs cat ck d nm own descr tgs z
           = (Inr (new_asset_id pf ck nm), meanwhile ck fs1, cat) \<and>
         (new_asset_id pf ck nm \<notin> col_asset_id ` set (data_assets cat) \<longrightarrow>
            get_asset (snd (snd (ingest_data pf st fs cat ck d nm own descr tgs z)))
              (new_asset_id pf ck nm) = Inr None)"
  using register_asset_failed [OF assms(3)]
  by (simp add: ingest_data_unfold [OF assms(1)] ingest_stored_unfold [OF assms(2)]
      get_asset_absent)

theorem ingest_data_ignores_registration_failure_counterexample:
  "store_data plain_platform (storage_of ''data_lake'') stored_fs sample_clock ''abc'' ''raw''
     ''t1'' ''parquet'' = (Inr stored_path, stored_fs) \<and>
   get_file_info plain_platform (meanwhile sample_clock stored_fs) stored_path
     = Inr (Some stored_info) \<and>
   fst (register_asset readonly_first_catalog
          (build_asset plain_platform sample_clock ''abc'' ''t1'' ''me'' ''again'' None
             stored_path stored_info)) = False \<and>
   ingest_data plain_platform (storage_of ''data_lake'') stored_fs readonly_first_catalog
       sample_clock ''abc'' ''t1'' ''me'' ''again'' None ''raw''
     = (Inr (asset_id first_asset), stored_fs, readonly_first_catalog) \<and>
   asset_id first_asset \<in> col_asset_id ` set (data_assets readonly_first_catalog) \<and>
   get_asset readonly_first_catalog (asset_id first_asset) \<noteq> Inr None"
proof -
  have fi: "get_file_info plain_platform (meanwhile sample_clock stored_fs) stored_path
     = Inr (Some stored_info)"
    by (simp add: quiet_clock stored_info_eval)
  have rg: "fst (register_asset readonly_first_catalog
          (build_asset plain_platform sample_clock ''abc'' ''t1'' ''me'' ''again'' None
             stored_path stored_info)) = False"
    by (simp add: register_asset_def readonly_first_catalog_def)
  have ing: "ingest_data plain_platform (storage_of ''data_lake'') stored_fs
       readonly_first_catalog sample_clock ''abc'' ''t1'' ''me'' ''again'' None ''raw''
     = (Inr (asset_id first_asset), stored_fs, readonly_first_catalog)"
  proof -
    have "asset_id first_asset = new_asset_id plain_platform sample_clock ''t1''"
      by (simp add: first_asset_def build_asset_def)
    then show ?thesis
      using register_asset_failed [OF rg]
      by (simp add: ingest_data_unfold [OF stored_again_eval] quiet_clock
          ingest_stored_unfold [OF stored_info_eval])
  qed
  have mem: "asset_id first_asset \<in> col_asset_id ` set (data_assets readonly_first_catalog)"
    by (simp add: readonly_first_catalog_def first_catalog_def register_asset_def
        first_asset_def build_asset_def stored_info_def fits_int64_def empty_catalog_def
        asset_to_row_def)
  show ?thesis
    using stored_again_eval fi rg ing mem get_asset_present [OF mem] by simp
qed

theorem ingest_data_ignores_registration_failure_witness:
  "store_data plain_platform (storage_of ''data_lake'') fresh_fs sample_clock ''abc'' ''raw''
     ''t1'' ''parquet'' = (Inr stored_path, stored_fs) \<and>
   get_file_info plain_platform (meanwhile sample_clock stored_fs) stored_path
     = Inr (Some stored_info) \<and>
   fst (register_asset readonly_catalog
          (build_asset plain_platform sample_clock ''abc'' ''t1'' ''me'' ''first'' None
             stored_path stored_info)) = False \<and>
   ingest_data plain_platform (storage_of ''data_lake'') fresh_fs readonly_catalog sample_clock
       ''abc'' ''t1'' ''me'' ''first'' None ''raw''
     = (Inr (new_asset_id plain_platform sample_clock ''t1''), stored_fs, readonly_catalog) \<and>
   new_asset_id plain_platform sample_clock ''t1''
     \<notin> col_asset_id ` set (data_assets readonly_catalog) \<and>
   get_asset (snd (snd (ingest_data plain_platform (storage_of ''data_lake'') fresh_fs
        readonly_catalog sample_clock ''abc'' ''t1'' ''me'' ''first'' None ''raw'')))
     (new_asset_id plain_platform sample_clock ''t1'') = Inr None"
proof -
  have fi: "get_file_info plain_platform (meanwhile sample_clock stored_fs) stored_path
     = Inr (Some stored_info)"
    by (simp add: quiet_clock stored_info_eval)
  have h3: "fst (register_asset readonly_catalog
          (build_asset plain_platform sample_clock ''abc'' ''t1'' ''me'' ''first'' None
             stored_path stored_info)) = False"
    by (simp add: register_asset_def readonly_catalog_def)
  have h4: "new_asset_id plain_platform sample_clock ''t1''
     \<notin> col_asset_id ` set (data_assets readonly_catalog)"
    by (simp add: readonly_catalog_def empty_catalog_def)
  note t = ingest_data_ignores_registration_failure [OF stored_eval fi h3]
  have c1: "ingest_data plain_platform (storage_of ''data_lake'') fresh_fs readonly_catalog
       sample_clock ''abc'' ''t1'' ''me'' ''first'' None ''raw''
     = (Inr (new_asset_id plain_platform sample_clock ''t1''), stored_fs, readonly_catalog)"
    using t by (simp add: quiet_clock)
  have c2: "get_asset (snd (snd (ingest_data plain_platform (storage_of ''data_lake'') fresh_fs
        readonly_catalog sample_clock ''abc'' ''t1'' ''me'' ''first'' None ''raw'')))
     (new_asset_id plain_platform sample_clock ''t1'') = Inr None"
    using t h4 by blast
  show ?thesis using stored_eval fi h3 h4 c1 c2 by blast
qed

end
